theory Spec2Isabelle
  imports Complex_Main
begin

section \<open>Linear discriminant analysis (lda/src/subspace.cpp)\<close>

text \<open>
  The development embeds \<^verbatim>\<open>subspace::project\<close>, \<^verbatim>\<open>subspace::reconstruct\<close> and the
  class \<^verbatim>\<open>subspace::LinearDiscriminantAnalysis\<close> (\<^verbatim>\<open>compute\<close>, \<^verbatim>\<open>project\<close>,
  \<^verbatim>\<open>reconstruct\<close>).  Matrix elements are real numbers: the arithmetic of the model is
  exact, so rounding, infinities and NaN of IEEE doubles are outside it, and
  \<^verbatim>\<open>convertTo\<close> between element types is the identity on values.
\<close>

subsection \<open>Errors\<close>

text \<open>
  \<^verbatim>\<open>CV_Error(CV_StsBadArg, ...)\<close> is the spec's InputError,
  \<^verbatim>\<open>CV_Error(CV_StsUnmatchedSizes, ...)\<close> its ShapeMismatch; \<open>StsAssert\<close> stands for
  a failed shape assertion inside a matrix primitive, \<open>SingularMatrix\<close> for the failure
  of the inversion.
\<close>

datatype error = StsBadArg | StsUnmatchedSizes | StsAssert | SingularMatrix

subsection \<open>The matrix type and the primitives the file calls\<close>

text \<open>
  Modelled from the spec: the matrix type \<^verbatim>\<open>cv::Mat\<close> and its operations are not part of
  the file; the spec treats "raw matrix storage and basic linear-algebra primitives" as
  external collaborators, a "2D numeric container with shape, element type, and
  conversion to a target numeric precision".  A matrix is its header (rows, cols,
  channels) and its elements, row by row; \<open>wf_mat\<close> holds of a single-channel matrix whose
  element lists agree with its header, \<open>mat_at m i j\<close> is the element in row \<open>i\<close> and column
  \<open>j\<close>, and \<open>mk_mat r c f\<close> is the \<open>r \<times> c\<close> matrix with the elements \<open>f i j\<close>.
\<close>

record Mat =
  rows :: nat
  cols :: nat
  channels :: nat
  elems :: "real list list"

definition wf_mat :: "Mat \<Rightarrow> bool" where
  "wf_mat m \<longleftrightarrow>
     channels m = 1 \<and> length (elems m) = rows m \<and> list_all (\<lambda>r. length r = cols m) (elems m)"

definition mat_at :: "Mat \<Rightarrow> nat \<Rightarrow> nat \<Rightarrow> real" where
  "mat_at m i j = elems m ! i ! j"

definition mk_mat :: "nat \<Rightarrow> nat \<Rightarrow> (nat \<Rightarrow> nat \<Rightarrow> real) \<Rightarrow> Mat" where
  "mk_mat r c f =
     \<lparr>rows = r, cols = c, channels = 1, elems = map (\<lambda>i. map (\<lambda>j. f i j) [0..<c]) [0..<r]\<rparr>"

text \<open>\<^verbatim>\<open>Mat()\<close>, the empty matrix, and \<^verbatim>\<open>Mat::empty()\<close>.\<close>

definition empty_Mat :: Mat where
  "empty_Mat = \<lparr>rows = 0, cols = 0, channels = 1, elems = []\<rparr>"

definition is_empty :: "Mat \<Rightarrow> bool" where
  "is_empty m \<longleftrightarrow> rows m = 0 \<or> cols m = 0"

text \<open>\<^verbatim>\<open>Mat::zeros(r, c, type)\<close> and \<^verbatim>\<open>Mat::total()\<close>.\<close>

definition zeros :: "nat \<Rightarrow> nat \<Rightarrow> Mat" where
  "zeros r c = mk_mat r c (\<lambda>i j. 0)"

definition total_mat :: "Mat \<Rightarrow> nat" where
  "total_mat m = rows m * cols m"

text \<open>
  Modelled from the spec: the primitives below belong to the matrix library and to
  \<^verbatim>\<open>helper.hpp\<close>, which are not part of the file (spec: "matrix multiply, transpose,
  repeat/broadcast, type conversion" are external collaborators).  \<open>convertTo\<close> keeps the
  values; \<open>convertTo_scaled\<close> is \<^verbatim>\<open>m.convertTo(m, type, alpha)\<close>, which multiplies every
  element by \<open>alpha\<close>; \<open>transpose_mat\<close> is the helper \<^verbatim>\<open>transpose\<close>, which returns a new
  matrix; \<open>reshape_1_1\<close> is \<^verbatim>\<open>m.reshape(1,1)\<close>, the elements in row-major order as one row;
  \<open>repeat\<close> tiles a matrix \<open>ny\<close> times down and \<open>nx\<close> times across.
\<close>

definition convertTo :: "Mat \<Rightarrow> Mat" where
  "convertTo m = m"

definition convertTo_scaled :: "Mat \<Rightarrow> real \<Rightarrow> Mat" where
  "convertTo_scaled m alpha = mk_mat (rows m) (cols m) (\<lambda>i j. mat_at m i j * alpha)"

definition transpose_mat :: "Mat \<Rightarrow> Mat" where
  "transpose_mat m = mk_mat (cols m) (rows m) (\<lambda>i j. mat_at m j i)"

definition reshape_1_1 :: "Mat \<Rightarrow> Mat" where
  "reshape_1_1 m = mk_mat 1 (total_mat m) (\<lambda>i j. mat_at m (j div cols m) (j mod cols m))"

definition repeat :: "Mat \<Rightarrow> nat \<Rightarrow> nat \<Rightarrow> Mat" where
  "repeat m ny nx =
     mk_mat (rows m * ny) (cols m * nx) (\<lambda>i j. mat_at m (i mod rows m) (j mod cols m))"

text \<open>
  Modelled from the spec: \<^verbatim>\<open>cv::add\<close> and \<^verbatim>\<open>cv::subtract\<close> work element by element on
  two matrices of the same size.  Every call in the file passes operands of equal size
  (two \<open>1 \<times> D\<close> rows, or the \<open>n \<times> d\<close> data and the mean repeated \<open>n\<close> times after the check
  \<open>d = mean.total()\<close>), so the result is given the size of the first operand.
\<close>

definition add :: "Mat \<Rightarrow> Mat \<Rightarrow> Mat" where
  "add a b = mk_mat (rows a) (cols a) (\<lambda>i j. mat_at a i j + mat_at b i j)"

definition subtract :: "Mat \<Rightarrow> Mat \<Rightarrow> Mat" where
  "subtract a b = mk_mat (rows a) (cols a) (\<lambda>i j. mat_at a i j - mat_at b i j)"

text \<open>
  Modelled from the spec: \<^verbatim>\<open>cv::gemm(src1, src2, alpha, src3, beta, dst, flags)\<close> computes
  \<open>alpha \<cdot> src1 \<cdot> op(src2) + beta \<cdot> src3\<close>, where \<open>op\<close> transposes under \<^verbatim>\<open>GEMM_2_T\<close>
  and \<open>src3\<close> is left out when it is empty or \<open>beta = 0\<close>.  The inner dimensions must
  agree and \<open>src3\<close>, when used, must have the size of the product.
\<close>

datatype gemm_flags = GEMM_0 | GEMM_2_T

definition mat_mul :: "Mat \<Rightarrow> Mat \<Rightarrow> Mat" where
  "mat_mul a b =
     mk_mat (rows a) (cols b)
       (\<lambda>i j. sum_list (map (\<lambda>k. mat_at a i k * mat_at b k j) [0..<cols a]))"

definition gemm :: "Mat \<Rightarrow> Mat \<Rightarrow> real \<Rightarrow> Mat \<Rightarrow> real \<Rightarrow> gemm_flags \<Rightarrow> error + Mat" where
  "gemm src1 src2 alpha src3 beta flags =
     (let b = (if flags = GEMM_2_T then transpose_mat src2 else src2);
          c = (if beta \<noteq> 0 then src3 else empty_Mat)
      in if cols src1 \<noteq> rows b then Inl StsAssert
         else if is_empty c then
           Inr (mk_mat (rows src1) (cols b) (\<lambda>i j. alpha * mat_at (mat_mul src1 b) i j))
         else if rows c \<noteq> rows src1 \<or> cols c \<noteq> cols b then Inl StsAssert
         else Inr (mk_mat (rows src1) (cols b)
                    (\<lambda>i j. alpha * mat_at (mat_mul src1 b) i j + beta * mat_at c i j)))"

subsection \<open>\<^verbatim>\<open>subspace::project\<close> and \<^verbatim>\<open>subspace::reconstruct\<close>\<close>

text \<open>\<^verbatim>\<open>project\<close> computes \<open>Y = (X - mean) \<cdot> W\<close> (lines 31-49).\<close>

definition project :: "Mat \<Rightarrow> Mat \<Rightarrow> Mat \<Rightarrow> bool \<Rightarrow> error + Mat" where
  "project W mean src dataAsRow =
     (let n = (if dataAsRow then rows src else cols src);
          d = (if dataAsRow then cols src else rows src)
      in if d \<noteq> total_mat mean then Inl StsUnmatchedSizes
         else
           let data = convertTo src;
               X = subtract (if dataAsRow then data else transpose_mat data)
                     (repeat (reshape_1_1 mean) n 1)
           in case gemm X W 1 empty_Mat 0 GEMM_0 of
                Inl e \<Rightarrow> Inl e
              | Inr Y \<Rightarrow> Inr (if dataAsRow then Y else transpose_mat Y))"

text \<open>\<^verbatim>\<open>reconstruct\<close> computes \<open>X = Y \<cdot> transpose W + mean\<close> (lines 52-72).\<close>

definition reconstruct :: "Mat \<Rightarrow> Mat \<Rightarrow> Mat \<Rightarrow> bool \<Rightarrow> error + Mat" where
  "reconstruct W mean src dataAsRow =
     (let n = (if dataAsRow then rows src else cols src);
          d = (if dataAsRow then cols src else rows src)
      in if d \<noteq> total_mat mean then Inl StsUnmatchedSizes
         else
           let data = convertTo src
           in case gemm (if dataAsRow then data else transpose_mat data) W 1
                     (repeat (reshape_1_1 mean) n 1) 1 GEMM_2_T of
                Inl e \<Rightarrow> Inl e
              | Inr X \<Rightarrow> Inr (if dataAsRow then X else transpose_mat X))"

subsection \<open>The model object\<close>

text \<open>
  The fields of \<^verbatim>\<open>LinearDiscriminantAnalysis\<close> that the file reads and writes
  (\<^verbatim>\<open>_dataAsRow\<close>, \<^verbatim>\<open>_num_components\<close>, \<^verbatim>\<open>_eigenvectors\<close>, \<^verbatim>\<open>_eigenvalues\<close>).
\<close>

record LinearDiscriminantAnalysis =
  dataAsRow :: bool
  num_components :: int
  eigenvectors :: Mat
  eigenvalues :: Mat

text \<open>\<^verbatim>\<open>LinearDiscriminantAnalysis::project\<close> (lines 176-180).\<close>

definition LDA_project :: "LinearDiscriminantAnalysis \<Rightarrow> Mat \<Rightarrow> error + Mat" where
  "LDA_project s src =
     (case gemm (if dataAsRow s then src else transpose_mat src) (eigenvectors s) 1
             empty_Mat 0 GEMM_0 of
        Inl e \<Rightarrow> Inl e
      | Inr dst \<Rightarrow> Inr (if dataAsRow s then dst else transpose_mat dst))"


subsection \<open>Helpers of \<^verbatim>\<open>compute\<close>\<close>

text \<open>
  Modelled from the spec: \<^verbatim>\<open>cv::remove_dups\<close> (helper.hpp, not part of the file) is the
  label deduplication utility: "given a sequence of integers, return the set of unique
  values in order of first occurrence".
\<close>

fun remove_dups :: "int list \<Rightarrow> int list" where
  "remove_dups [] = []"
| "remove_dups (x # xs) = x # remove_dups (filter (\<lambda>y. y \<noteq> x) xs)"

text \<open>
  Lines 81-87: \<^verbatim>\<open>label2num[num2label[i]] = i\<close> for every \<open>i\<close>, then
  \<^verbatim>\<open>mapped_labels[i] = label2num[labels[i]]\<close>; \<^verbatim>\<open>operator[]\<close> of \<^verbatim>\<open>std::map\<close> yields \<open>0\<close>
  for a key that is absent.
\<close>

definition map_labels :: "int list \<Rightarrow> int list \<Rightarrow> nat list" where
  "map_labels num2label labels =
     (let label2num = fold (\<lambda>i m. m(num2label ! i \<mapsto> i)) [0..<length num2label] Map.empty
      in map (\<lambda>l. case label2num l of Some v \<Rightarrow> v | None \<Rightarrow> 0) labels)"

text \<open>
  Modelled from the spec: \<^verbatim>\<open>Mat::row(i)\<close> is a header onto row \<open>i\<close> of a matrix, sharing its
  elements; read as a value it is the \<open>1 \<times> cols\<close> matrix of that row, and \<open>set_row\<close> is a
  write through such a header (spec: "center each row in place").
\<close>

definition row :: "Mat \<Rightarrow> nat \<Rightarrow> Mat" where
  "row m i = mk_mat 1 (cols m) (\<lambda>i' j. mat_at m i j)"

definition set_row :: "Mat \<Rightarrow> nat \<Rightarrow> Mat \<Rightarrow> Mat" where
  "set_row m i r =
     mk_mat (rows m) (cols m) (\<lambda>i' j. if i' = i then mat_at r 0 j else mat_at m i' j)"

text \<open>
  Modelled from the spec: \<^verbatim>\<open>cv::mulTransposed(src, dst, aTa)\<close> is the product of
  the transposed \<open>src\<close> with \<open>src\<close> when \<open>aTa\<close> holds, and of \<open>src\<close> with its transpose
  otherwise (spec: "Sw" is the transposed centred data times the centred data).
\<close>

definition mulTransposed :: "Mat \<Rightarrow> bool \<Rightarrow> Mat" where
  "mulTransposed src aTa =
     (if aTa then mat_mul (transpose_mat src) src else mat_mul src (transpose_mat src))"

text \<open>
  Modelled from the spec: \<^verbatim>\<open>Mat::inv()\<close> is not part of the file; by the spec "if Sw is
  singular, inversion fails with a SingularMatrix error".  The determinant is the Laplace
  expansion along the first row, the inverse the adjugate divided by the determinant.
\<close>

fun det :: "real list list \<Rightarrow> real" where
  "det [] = 1"
| "det (r # rs) =
     sum_list (map (\<lambda>j. (- 1) ^ j * (r ! j) * det (map (\<lambda>x. take j x @ drop (Suc j) x) rs))
       [0..<length r])"

definition minor_rows :: "real list list \<Rightarrow> nat \<Rightarrow> nat \<Rightarrow> real list list" where
  "minor_rows xs i j = map (\<lambda>x. take j x @ drop (Suc j) x) (take i xs @ drop (Suc i) xs)"

definition inv_mat :: "Mat \<Rightarrow> error + Mat" where
  "inv_mat m =
     (if rows m \<noteq> cols m then Inl StsAssert
      else let d = det (elems m)
           in if d = 0 then Inl SingularMatrix
              else Inr (mk_mat (rows m) (cols m)
                         (\<lambda>i j. (- 1) ^ (i + j) * det (minor_rows (elems m) j i) / d)))"

text \<open>
  Modelled from the spec: \<^verbatim>\<open>argsort\<close> and \<^verbatim>\<open>sortMatrixByColumn\<close> (helper.hpp, not part of
  the file).  "Sort all D eigenpairs by eigenvalue descending (ties: stable ...).  Reorder
  the eigenvector matrix's columns to match."  \<open>argsort\<close> returns the indices of the
  elements in sorted order; \<open>sortMatrixByColumn\<close> puts column \<open>sorted_indices[j]\<close> of its
  argument at position \<open>j\<close> and needs one valid index for every column.
\<close>

definition argsort :: "Mat \<Rightarrow> bool \<Rightarrow> nat list" where
  "argsort src ascending =
     (let v = reshape_1_1 src
      in sort_key (\<lambda>i. if ascending then mat_at v 0 i else - mat_at v 0 i)
           [0..<total_mat src])"

definition sortMatrixByColumn :: "Mat \<Rightarrow> nat list \<Rightarrow> error + Mat" where
  "sortMatrixByColumn src sorted_indices =
     (if length sorted_indices \<noteq> cols src \<or> \<not> list_all (\<lambda>k. k < cols src) sorted_indices
      then Inl StsAssert
      else Inr (mk_mat (rows src) (cols src) (\<lambda>i j. mat_at src i (sorted_indices ! j))))"

text \<open>
  Modelled from the spec: \<^verbatim>\<open>Mat(m, Range::all(), Range(start, stop))\<close> is the matrix of the
  columns \<open>start..stop-1\<close> of \<open>m\<close> (spec: "truncate both eigenvalues and eigenvectors to
  the first K columns"); a range that does not lie within \<open>0..m.cols\<close> fails an assertion.
\<close>

definition col_range :: "Mat \<Rightarrow> int \<Rightarrow> int \<Rightarrow> error + Mat" where
  "col_range m start stop =
     (if 0 \<le> start \<and> start \<le> stop \<and> stop \<le> int (cols m)
      then Inr (mk_mat (rows m) (nat (stop - start)) (\<lambda>i j. mat_at m i (nat start + j)))
      else Inl StsAssert)"

subsection \<open>The store\<close>

text \<open>
  \<^verbatim>\<open>compute\<close> is the one function of the file that writes into an existing matrix: the
  centring loop writes through row headers of \<^verbatim>\<open>data\<close>.  Its model therefore keeps the
  matrices and label vectors that callers can see in a store and passes \<^verbatim>\<open>src\<close> and
  \<^verbatim>\<open>labels\<close> by address, as the C++ references do.  \<^verbatim>\<open>src.clone()\<close> and the helper
  \<^verbatim>\<open>transpose(src)\<close> return a matrix with a buffer of its own, that is, a new cell.
\<close>

record memory =
  mats :: "Mat list"
  vecs :: "int list list"

text \<open>
  Modelled from the spec: \<^verbatim>\<open>Mat::clone\<close> and the helper \<^verbatim>\<open>transpose\<close> are not part of the
  file; each returns a matrix that owns its elements (spec: "all matrices are exclusively
  owned by the call stack of compute"), here a cell appended to the store.  \<open>store_row\<close>
  is the write through the row header \<^verbatim>\<open>data.row(i)\<close> into the cell of \<^verbatim>\<open>data\<close>.
\<close>

definition alloc :: "memory \<Rightarrow> Mat \<Rightarrow> nat \<times> memory" where
  "alloc mem m = (length (mats mem), mem\<lparr>mats := mats mem @ [m]\<rparr>)"

definition clone :: "memory \<Rightarrow> nat \<Rightarrow> nat \<times> memory" where
  "clone mem src = alloc mem (mats mem ! src)"

definition transpose_new :: "memory \<Rightarrow> nat \<Rightarrow> nat \<times> memory" where
  "transpose_new mem src = alloc mem (transpose_mat (mats mem ! src))"

definition store_row :: "memory \<Rightarrow> nat \<Rightarrow> nat \<Rightarrow> Mat \<Rightarrow> memory" where
  "store_row mem a i r = mem\<lparr>mats := (mats mem)[a := set_row (mats mem ! a) i r]\<rparr>"

subsection \<open>\<^verbatim>\<open>LinearDiscriminantAnalysis::compute\<close>\<close>

text \<open>
  Lines 102-123: the sums over all rows and over the rows of each class, then the means.
  For \<open>N = 0\<close> the C++ factor \<open>1.0/N\<close> is infinite and the model's is \<open>0\<close>; then \<open>C = 0\<close>
  and \<^verbatim>\<open>meanTotal\<close> is not read again.
\<close>

definition sum_step ::
  "Mat \<Rightarrow> nat list \<Rightarrow> nat \<Rightarrow> Mat \<times> Mat list \<times> nat list \<Rightarrow> Mat \<times> Mat list \<times> nat list" where
  "sum_step data mapped_labels i acc =
     (case acc of (meanTotal, meanClass, numClass) \<Rightarrow>
        let instance = row data i;
            classIdx = mapped_labels ! i
        in (add meanTotal instance,
            meanClass[classIdx := add (meanClass ! classIdx) instance],
            numClass[classIdx := numClass ! classIdx + 1]))"

definition class_means :: "Mat \<Rightarrow> nat list \<Rightarrow> nat \<Rightarrow> Mat \<times> Mat list" where
  "class_means data mapped_labels C =
     (let N = rows data;
          D = cols data
      in case fold (sum_step data mapped_labels) [0..<N]
                (zeros 1 D, replicate C (zeros 1 D), replicate C 0) of
           (meanTotal, meanClass, numClass) \<Rightarrow>
             (convertTo_scaled meanTotal (1 / real N),
              map (\<lambda>i. convertTo_scaled (meanClass ! i) (1 / real (numClass ! i))) [0..<C]))"

text \<open>Lines 125-129: every row of \<^verbatim>\<open>data\<close> has the mean of its class subtracted, in place.\<close>

definition center_step :: "nat \<Rightarrow> nat list \<Rightarrow> Mat list \<Rightarrow> nat \<Rightarrow> memory \<Rightarrow> memory" where
  "center_step data mapped_labels meanClass i mem =
     (let classIdx = mapped_labels ! i;
          instance = row (mats mem ! data) i
      in store_row mem data i (subtract instance (meanClass ! classIdx)))"

text \<open>Lines 134-140: the between-classes scatter.\<close>

definition Sb_step :: "Mat list \<Rightarrow> Mat \<Rightarrow> nat \<Rightarrow> Mat \<Rightarrow> Mat" where
  "Sb_step meanClass meanTotal i Sb =
     (let tmp = subtract (meanClass ! i) meanTotal;
          tmp = mulTransposed tmp True
      in add Sb tmp)"

text \<open>Lines 102-140 together: the means, the centring, \<open>Sw\<close> and \<open>Sb\<close>.\<close>

definition scatter :: "nat \<Rightarrow> nat list \<Rightarrow> nat \<Rightarrow> memory \<Rightarrow> Mat \<times> Mat \<times> memory" where
  "scatter data mapped_labels C mem =
     (let N = rows (mats mem ! data);
          D = cols (mats mem ! data)
      in case class_means (mats mem ! data) mapped_labels C of
           (meanTotal, meanClass) \<Rightarrow>
             let mem' = fold (center_step data mapped_labels meanClass) [0..<N] mem;
                 Sw = mulTransposed (mats mem' ! data) True;
                 Sb = fold (Sb_step meanClass meanTotal) [0..<C] (zeros D D)
             in (Sw, Sb, mem'))"

text \<open>Lines 141-145: \<open>M = inv(Sw) \<cdot> Sb\<close>.\<close>

definition eigen_matrix :: "Mat \<Rightarrow> Mat \<Rightarrow> error + Mat" where
  "eigen_matrix Sw Sb =
     (case inv_mat Sw of
        Inl e \<Rightarrow> Inl e
      | Inr Swi \<Rightarrow> gemm Swi Sb 1 empty_Mat 0 GEMM_0)"

text \<open>
  Lines 156-169.  The eigenvalue decomposition (\<^verbatim>\<open>EigenvalueDecomposition\<close>, or Eigen's
  solver under \<^verbatim>\<open>HAVE_EIGEN\<close>) is a parameter of the model: \<open>es M\<close> is the pair of the
  eigenvalues and the eigenvectors it returns for \<open>M\<close>.  The fields are assigned one
  after the other, so a failing step leaves the assignments made before it.
\<close>

definition select_components ::
  "Mat \<times> Mat \<Rightarrow> LinearDiscriminantAnalysis \<Rightarrow> (error + unit) \<times> LinearDiscriminantAnalysis" where
  "select_components ev s =
     (let s1 = s\<lparr>eigenvalues := fst ev, eigenvectors := snd ev\<rparr>;
          s2 = s1\<lparr>eigenvalues := reshape_1_1 (eigenvalues s1)\<rparr>;
          sorted_indices = argsort (eigenvalues s2) False
      in case sortMatrixByColumn (eigenvalues s2) sorted_indices of
           Inl e \<Rightarrow> (Inl e, s2)
         | Inr sorted_vals \<Rightarrow>
             let s3 = s2\<lparr>eigenvalues := sorted_vals\<rparr>
             in case sortMatrixByColumn (eigenvectors s3) sorted_indices of
                  Inl e \<Rightarrow> (Inl e, s3)
                | Inr sorted_vecs \<Rightarrow>
                    let s4 = s3\<lparr>eigenvectors := sorted_vecs\<rparr>
                    in case col_range (eigenvalues s4) 0 (num_components s4) of
                         Inl e \<Rightarrow> (Inl e, s4)
                       | Inr first_vals \<Rightarrow>
                           let s5 = s4\<lparr>eigenvalues := first_vals\<rparr>
                           in case col_range (eigenvectors s5) 0 (num_components s5) of
                                Inl e \<Rightarrow> (Inl e, s5)
                              | Inr first_vecs \<Rightarrow>
                                  (Inr (), s5\<lparr>eigenvectors := first_vecs\<rparr>))"

text \<open>
  Lines 77-92: the working copy \<^verbatim>\<open>data\<close> (a new cell of the store), the labels read
  through their address and the dense class indices.  The result is the address of
  \<^verbatim>\<open>data\<close>, the store, \<^verbatim>\<open>mapped_labels\<close> and \<^verbatim>\<open>num2label\<close>.
\<close>

definition prepare ::
  "nat \<Rightarrow> nat \<Rightarrow> LinearDiscriminantAnalysis \<Rightarrow> memory \<Rightarrow> nat \<times> memory \<times> nat list \<times> int list" where
  "prepare src labels s mem =
     (case (if dataAsRow s then clone mem src else transpose_new mem src) of
        (data, mem1) \<Rightarrow>
          let mem2 = mem1\<lparr>mats := (mats mem1)[data := convertTo (mats mem1 ! data)]\<rparr>;
              num2label = remove_dups (vecs mem2 ! labels);
              mapped_labels = map_labels num2label (vecs mem2 ! labels)
          in (data, mem2, mapped_labels, num2label))"

text \<open>
  \<^verbatim>\<open>compute(const Mat& src, const vector<int>& labels)\<close>, lines 74-170.  The result is the
  outcome of the call, the object after it and the store after it.  The warning of line
  98 is console output and has no part in the model.
\<close>

definition compute ::
  "(Mat \<Rightarrow> Mat \<times> Mat) \<Rightarrow> nat \<Rightarrow> nat \<Rightarrow> LinearDiscriminantAnalysis \<Rightarrow> memory \<Rightarrow>
     (error + unit) \<times> LinearDiscriminantAnalysis \<times> memory" where
  "compute es src labels s mem =
     (if channels (mats mem ! src) \<noteq> 1 then (Inl StsBadArg, s, mem)
      else case prepare src labels s mem of
        (data, mem2, mapped_labels, num2label) \<Rightarrow>
          let N = rows (mats mem2 ! data);
              C = length num2label
          in if length (vecs mem2 ! labels) \<noteq> N then (Inl StsBadArg, s, mem2)
             else
               let s1 = (if num_components s \<le> 0 \<or> num_components s > int C - 1
                         then s\<lparr>num_components := int C - 1\<rparr> else s)
               in case scatter data mapped_labels C mem2 of
                    (Sw, Sb, mem3) \<Rightarrow>
                      (case eigen_matrix Sw Sb of
                         Inl e \<Rightarrow> (Inl e, s1, mem3)
                       | Inr M \<Rightarrow>
                           (case select_components (es M) s1 of
                              (r, s2) \<Rightarrow> (r, s2, mem3))))"

text \<open>
  The scatter matrices and the centred data that \<^verbatim>\<open>compute\<close> builds for an input
  (lines 77-140), for stating properties of them.
\<close>

definition scatter_of ::
  "nat \<Rightarrow> nat \<Rightarrow> LinearDiscriminantAnalysis \<Rightarrow> memory \<Rightarrow> Mat \<times> Mat \<times> memory" where
  "scatter_of src labels s mem =
     (case prepare src labels s mem of
        (data, mem2, mapped_labels, num2label) \<Rightarrow>
          scatter data mapped_labels (length num2label) mem2)"

text \<open>
  A decomposition for diagonal matrices, for running the model on examples: the
  eigenvalues of a diagonal matrix are its diagonal, the eigenvectors the unit vectors.
\<close>

definition es_diag :: "Mat \<Rightarrow> Mat \<times> Mat" where
  "es_diag M =
     (mk_mat 1 (rows M) (\<lambda>i j. mat_at M j j),
      mk_mat (rows M) (rows M) (\<lambda>i j. if i = j then 1 else 0))"

subsection \<open>The means of the spec\<close>

text \<open>
  For comparison with the loops of \<^verbatim>\<open>compute\<close>, the means as the spec words them: the
  global mean is the "elementwise average of all N rows", the mean of a class the
  "elementwise average of rows belonging to" it.  \<open>class_rows labels l\<close> lists the samples
  whose label is \<open>l\<close>; the data is taken with the samples as rows.
\<close>

definition class_rows :: "int list \<Rightarrow> int \<Rightarrow> nat list" where
  "class_rows labels l = filter (\<lambda>i. labels ! i = l) [0..<length labels]"

definition spec_class_mean :: "Mat \<Rightarrow> int list \<Rightarrow> int \<Rightarrow> nat \<Rightarrow> real" where
  "spec_class_mean X labels l j =
     sum_list (map (\<lambda>i. mat_at X i j) (class_rows labels l)) / real (length (class_rows labels l))"

definition spec_total_mean :: "Mat \<Rightarrow> nat \<Rightarrow> real" where
  "spec_total_mean X j = sum_list (map (\<lambda>i. mat_at X i j) [0..<rows X]) / real (rows X)"

subsection \<open>Orthogonal bases\<close>

text \<open>
  \<open>eye n\<close> is the identity matrix (\<^verbatim>\<open>Mat::eye\<close>); a square basis \<open>W\<close> is orthogonal when
  the product of \<open>W\<close> with its transpose is the identity.
\<close>

definition eye :: "nat \<Rightarrow> Mat" where
  "eye n = mk_mat n n (\<lambda>i j. if i = j then 1 else 0)"

definition orthogonal :: "Mat \<Rightarrow> bool" where
  "orthogonal W \<longleftrightarrow> rows W = cols W \<and> mat_mul W (transpose_mat W) = eye (rows W)"

subsection \<open>The loops in closed form\<close>

text \<open>
  The state of the summing loop (lines 113-119) after \<open>n\<close> rounds, and an entry of
  \<^verbatim>\<open>data\<close> after \<open>n\<close> rounds of the centring loop (lines 125-129), written without the
  loop: they are what the loops are proved to compute.
\<close>

definition sums_upto :: "Mat \<Rightarrow> nat list \<Rightarrow> nat \<Rightarrow> nat \<Rightarrow> Mat \<times> Mat list \<times> nat list" where
  "sums_upto X ml C n =
     (mk_mat 1 (cols X) (\<lambda>i j. \<Sum>k<n. mat_at X k j),
      map (\<lambda>c. mk_mat 1 (cols X) (\<lambda>i j. \<Sum>k<n. if ml ! k = c then mat_at X k j else 0))
        [0..<C],
      map (\<lambda>c. \<Sum>k<n. if ml ! k = c then 1 else 0) [0..<C])"

definition centered_upto :: "Mat \<Rightarrow> nat list \<Rightarrow> Mat list \<Rightarrow> nat \<Rightarrow> nat \<Rightarrow> nat \<Rightarrow> real" where
  "centered_upto X ml mc n i j =
     (if i < n then mat_at X i j - mat_at (mc ! (ml ! i)) 0 j else mat_at X i j)"

subsection \<open>Example inputs\<close>

text \<open>
  Four samples of dimension two, stored by rows at address 0 of the store.  The label
  vectors at addresses 0 to 3 put them in two classes (labels 7 and 3), have the wrong
  length, put them in a single class, and put every sample in a class of its own.
  \<open>ex_fresh\<close> is an object that has not been trained and asks for the default number of
  components; \<open>ex_model\<close> is the object after training on the two classes, \<open>ex_centered\<close>
  the working copy of the data after that call, \<open>ex_single\<close> the object after training on
  the single class.
\<close>

definition ex_data :: Mat where
  "ex_data = \<lparr>rows = 4, cols = 2, channels = 1, elems = [[1, 0], [- 1, 0], [0, 11], [0, 9]]\<rparr>"

definition ex_store :: memory where
  "ex_store = \<lparr>mats = [ex_data], vecs = [[7, 7, 3, 3], [7, 7, 3], [7, 7, 7, 7], [1, 2, 3, 4]]\<rparr>"

definition ex_fresh :: LinearDiscriminantAnalysis where
  "ex_fresh =
     \<lparr>dataAsRow = True, num_components = 0, eigenvectors = empty_Mat, eigenvalues = empty_Mat\<rparr>"

definition ex_model :: LinearDiscriminantAnalysis where
  "ex_model =
     \<lparr>dataAsRow = True, num_components = 1,
      eigenvectors = \<lparr>rows = 2, cols = 1, channels = 1, elems = [[0], [1]]\<rparr>,
      eigenvalues = \<lparr>rows = 1, cols = 1, channels = 1, elems = [[25]]\<rparr>\<rparr>"

definition ex_centered :: Mat where
  "ex_centered =
     \<lparr>rows = 4, cols = 2, channels = 1, elems = [[1, 0], [- 1, 0], [0, 1], [0, - 1]]\<rparr>"

definition ex_single :: LinearDiscriminantAnalysis where
  "ex_single =
     \<lparr>dataAsRow = True, num_components = 0,
      eigenvectors = \<lparr>rows = 2, cols = 0, channels = 1, elems = [[], []]\<rparr>,
      eigenvalues = \<lparr>rows = 1, cols = 0, channels = 1, elems = [[]]\<rparr>\<rparr>"

text \<open>
  Inputs for \<^verbatim>\<open>subspace::project\<close> and \<^verbatim>\<open>subspace::reconstruct\<close>: two samples of
  dimension two by rows with a mean and an orthogonal basis (the permutation of the two
  coordinates), and a sample of dimension one with the basis \<open>(2)\<close>, which has full rank
  and is not orthogonal.
\<close>

definition ex_X :: Mat where
  "ex_X = \<lparr>rows = 2, cols = 2, channels = 1, elems = [[3, 4], [5, 6]]\<rparr>"

definition ex_mean :: Mat where
  "ex_mean = \<lparr>rows = 1, cols = 2, channels = 1, elems = [[1, 2]]\<rparr>"

definition ex_W :: Mat where
  "ex_W = \<lparr>rows = 2, cols = 2, channels = 1, elems = [[0, 1], [1, 0]]\<rparr>"

definition ex_X1 :: Mat where
  "ex_X1 = \<lparr>rows = 1, cols = 1, channels = 1, elems = [[1]]\<rparr>"

definition ex_mean1 :: Mat where
  "ex_mean1 = \<lparr>rows = 1, cols = 1, channels = 1, elems = [[0]]\<rparr>"

definition ex_W1 :: Mat where
  "ex_W1 = \<lparr>rows = 1, cols = 1, channels = 1, elems = [[2]]\<rparr>"



section \<open>Properties\<close>

subsection \<open>Matrices built from an entry function\<close>

lemma rows_mk_mat [simp]: "rows (mk_mat r c f) = r"
  by (simp add: mk_mat_def)

lemma cols_mk_mat [simp]: "cols (mk_mat r c f) = c"
  by (simp add: mk_mat_def)

lemma channels_mk_mat [simp]: "channels (mk_mat r c f) = 1"
  by (simp add: mk_mat_def)

lemma mat_at_mk_mat [simp]: "i < r \<Longrightarrow> j < c \<Longrightarrow> mat_at (mk_mat r c f) i j = f i j"
  by (simp add: mk_mat_def mat_at_def)

lemma wf_mk_mat [simp]: "wf_mat (mk_mat r c f)"
  by (simp add: wf_mat_def mk_mat_def list_all_iff)

lemma mat_eqI:
  assumes "wf_mat a" "wf_mat b" "rows a = rows b" "cols a = cols b"
    and "\<And>i j. i < rows a \<Longrightarrow> j < cols a \<Longrightarrow> mat_at a i j = mat_at b i j"
  shows "a = b"
proof -
  have "elems a = elems b"
  proof (rule nth_equalityI)
    show "length (elems a) = length (elems b)"
      using assms(1-3) by (simp add: wf_mat_def)
  next
    fix i assume i: "i < length (elems a)"
    then have la: "length (elems a ! i) = cols a"
      using assms(1) by (simp add: wf_mat_def list_all_length)
    from i have "i < length (elems b)"
      using assms(1-3) by (simp add: wf_mat_def)
    then have lb: "length (elems b ! i) = cols b"
      using assms(2) by (simp add: wf_mat_def list_all_length)
    show "elems a ! i = elems b ! i"
    proof (rule nth_equalityI)
      show "length (elems a ! i) = length (elems b ! i)"
        using la lb assms(4) by simp
    next
      fix j assume "j < length (elems a ! i)"
      then show "elems a ! i ! j = elems b ! i ! j"
        using assms(5) [of i j] i la assms(1) by (simp add: mat_at_def wf_mat_def)
    qed
  qed
  moreover have "channels a = channels b"
    using assms(1,2) by (simp add: wf_mat_def)
  ultimately show ?thesis
    using assms(3,4) by simp
qed

lemma mk_mat_mat_at: "wf_mat m \<Longrightarrow> mk_mat (rows m) (cols m) (mat_at m) = m"
  by (rule mat_eqI) simp_all

lemma sum_list_upt: "sum_list (map f [0..<n]) = (\<Sum>k<n. f k)"
  by (simp add: interv_sum_list_conv_sum_set_nat atLeast0LessThan)

lemma mk_mat_cong [cong]:
  "r = r' \<Longrightarrow> c = c' \<Longrightarrow> (\<And>i j. i < r' \<Longrightarrow> j < c' \<Longrightarrow> f i j = g i j)
   \<Longrightarrow> mk_mat r c f = mk_mat r' c' g"
  by (simp add: mk_mat_def)

subsection \<open>\<^verbatim>\<open>LinearDiscriminantAnalysis::reconstruct\<close>\<close>





subsection \<open>The store: what \<^verbatim>\<open>compute\<close> writes\<close>

lemma center_step_vecs: "vecs (center_step d ml mc i mem) = vecs mem"
  by (simp add: center_step_def store_row_def Let_def)

lemma center_step_length: "length (mats (center_step d ml mc i mem)) = length (mats mem)"
  by (simp add: center_step_def store_row_def Let_def)

lemma center_step_other: "a \<noteq> d \<Longrightarrow> mats (center_step d ml mc i mem) ! a = mats mem ! a"
  by (simp add: center_step_def store_row_def Let_def)

lemma fold_center_step_frame:
  "vecs (fold (center_step d ml mc) is mem) = vecs mem
   \<and> length (mats (fold (center_step d ml mc) is mem)) = length (mats mem)
   \<and> (a \<noteq> d \<longrightarrow> mats (fold (center_step d ml mc) is mem) ! a = mats mem ! a)"
  by (induction "is" arbitrary: mem)
     (simp_all add: center_step_vecs center_step_length center_step_other)

lemma scatter_mem:
  "snd (snd (scatter d ml C mem)) =
     fold (center_step d ml (snd (class_means (mats mem ! d) ml C))) [0..<rows (mats mem ! d)] mem"
  by (simp add: scatter_def Let_def split: prod.splits)

lemma prepare_unfold:
  "prepare src labels s mem =
     (length (mats mem),
      mem\<lparr>mats := mats mem @
             [if dataAsRow s then mats mem ! src else transpose_mat (mats mem ! src)]\<rparr>,
      map_labels (remove_dups (vecs mem ! labels)) (vecs mem ! labels),
      remove_dups (vecs mem ! labels))"
  by (simp add: prepare_def clone_def transpose_new_def alloc_def Let_def convertTo_def)

lemma compute_mem_cases:
  "snd (snd (compute es src labels s mem)) = mem
   \<or> snd (snd (compute es src labels s mem)) = fst (snd (prepare src labels s mem))
   \<or> snd (snd (compute es src labels s mem)) =
        snd (snd (scatter (fst (prepare src labels s mem))
          (fst (snd (snd (prepare src labels s mem))))
          (length (snd (snd (snd (prepare src labels s mem)))))
          (fst (snd (prepare src labels s mem)))))"
  by (simp add: compute_def Let_def split: prod.splits sum.splits)

lemma compute_old_cells:
  "take (length (mats mem)) (mats (snd (snd (compute es src labels s mem)))) = mats mem
   \<and> vecs (snd (snd (compute es src labels s mem))) = vecs mem"
proof -
  let ?p = "fst (snd (prepare src labels s mem))"
  let ?d = "length (mats mem)"
  have p: "take ?d (mats ?p) = mats mem \<and> vecs ?p = vecs mem"
    by (simp add: prepare_unfold)
  have sc: "take ?d (mats (snd (snd (scatter ?d ml C ?p)))) = mats mem
      \<and> vecs (snd (snd (scatter ?d ml C ?p))) = vecs mem" for ml C
  proof -
    let ?f = "snd (snd (scatter ?d ml C ?p))"
    have v: "vecs ?f = vecs mem"
      using fold_center_step_frame p by (simp add: scatter_mem)
    have l: "length (mats ?f) = Suc ?d"
      using fold_center_step_frame [of ?d ml _ _ ?p] by (simp add: scatter_mem prepare_unfold)
    have n: "mats ?f ! a = mats mem ! a" if "a < ?d" for a
    proof -
      from that have "a \<noteq> ?d" by simp
      then have "mats ?f ! a = mats ?p ! a"
        using fold_center_step_frame [of ?d ml _ _ ?p a] by (simp add: scatter_mem)
      then show ?thesis using that by (simp add: prepare_unfold nth_append)
    qed
    have "take ?d (mats ?f) = mats mem"
      by (rule nth_equalityI) (simp_all add: l n)
    with v show ?thesis by simp
  qed
  from compute_mem_cases [of es src labels s mem] show ?thesis
    using p sc by (auto simp: prepare_unfold)
qed

text \<open>
  Claim C10.  Whatever the outcome of \<^verbatim>\<open>compute\<close>, the matrix at the address of \<open>src\<close> and
  the label vectors are the same after the call as before it, and so is every other
  matrix that existed before the call: the rows that are centred in place belong to the
  copy made by \<^verbatim>\<open>clone\<close> or \<^verbatim>\<open>transpose\<close>, a new cell of the store.
\<close>

theorem compute_leaves_inputs_unchanged:
  assumes "compute es src labels s mem = (r, s', mem')" and "src < length (mats mem)"
  shows "mats mem' ! src = mats mem ! src \<and> vecs mem' = vecs mem
    \<and> take (length (mats mem)) (mats mem') = mats mem
    \<and> fst (prepare src labels s mem) = length (mats mem)"
proof -
  from compute_old_cells [of mem es src labels s] assms(1)
  have t: "take (length (mats mem)) (mats mem') = mats mem" and v: "vecs mem' = vecs mem"
    by simp_all
  have "mats mem' ! src = take (length (mats mem)) (mats mem') ! src"
    using assms(2) by simp
  with t v show ?thesis
    by (simp add: prepare_unfold)
qed

theorem compute_leaves_inputs_unchanged_witness:
  "(0::nat) < length (mats ex_store)
   \<and> mats (snd (snd (compute es_diag 0 0 ex_fresh ex_store))) ! 0 = mats ex_store ! 0
   \<and> vecs (snd (snd (compute es_diag 0 0 ex_fresh ex_store))) = vecs ex_store"
proof -
  have h: "(0::nat) < length (mats ex_store)"
    by (simp add: ex_store_def)
  have c: "compute es_diag 0 0 ex_fresh ex_store =
      (fst (compute es_diag 0 0 ex_fresh ex_store),
       fst (snd (compute es_diag 0 0 ex_fresh ex_store)),
       snd (snd (compute es_diag 0 0 ex_fresh ex_store)))"
    by simp
  from compute_leaves_inputs_unchanged [OF c h] h show ?thesis
    by simp
qed

subsection \<open>The label count check\<close>

text \<open>
  Claim C6.  When the number of labels differs from the number of samples (the rows of
  \<open>src\<close> with data by rows, its columns otherwise), \<^verbatim>\<open>compute\<close> fails with
  \<^verbatim>\<open>CV_StsBadArg\<close>, the InputError of the spec, and the object is the one before the
  call: \<^verbatim>\<open>_eigenvectors\<close>, \<^verbatim>\<open>_eigenvalues\<close> and \<^verbatim>\<open>_num_components\<close> keep their values.
\<close>

theorem compute_label_count_mismatch:
  "length (vecs mem ! labels) \<noteq>
     (if dataAsRow s then rows (mats mem ! src) else cols (mats mem ! src))
   \<Longrightarrow> fst (compute es src labels s mem) = Inl StsBadArg
       \<and> fst (snd (compute es src labels s mem)) = s"
  by (cases "dataAsRow s") (simp_all add: compute_def prepare_unfold transpose_mat_def)

theorem compute_label_count_mismatch_witness:
  "length (vecs ex_store ! 1) \<noteq>
     (if dataAsRow ex_model then rows (mats ex_store ! 0) else cols (mats ex_store ! 0))
   \<and> fst (compute es_diag 0 1 ex_model ex_store) = Inl StsBadArg
   \<and> fst (snd (compute es_diag 0 1 ex_model ex_store)) = ex_model"
proof -
  have h: "length (vecs ex_store ! 1) \<noteq>
     (if dataAsRow ex_model then rows (mats ex_store ! 0) else cols (mats ex_store ! 0))"
    by (simp add: ex_store_def ex_model_def ex_data_def)
  from compute_label_count_mismatch [OF h] h show ?thesis
    by simp
qed

subsection \<open>The stages of \<^verbatim>\<open>compute\<close>\<close>

lemma remove_dups_set: "set (remove_dups xs) = set xs"
  by (induction xs rule: remove_dups.induct) auto

lemma remove_dups_distinct: "distinct (remove_dups xs)"
  by (induction xs rule: remove_dups.induct) (auto simp: remove_dups_set)

lemma remove_dups_length: "length (remove_dups xs) = card (set xs)"
  using distinct_card [OF remove_dups_distinct, of xs] by (simp add: remove_dups_set)

lemma argsort_length: "length (argsort m asc) = total_mat m"
  by (simp add: argsort_def Let_def)

lemma argsort_set: "set (argsort m asc) = {..<total_mat m}"
  by (auto simp add: argsort_def Let_def)

lemma rows_reshape_1_1 [simp]: "rows (reshape_1_1 m) = 1"
  by (simp add: reshape_1_1_def)

lemma cols_reshape_1_1 [simp]: "cols (reshape_1_1 m) = total_mat m"
  by (simp add: reshape_1_1_def)

lemma total_reshape_1_1 [simp]: "total_mat (reshape_1_1 m) = total_mat m"
  by (simp add: total_mat_def)

lemma select_components_success:
  assumes "select_components ev s = (Inr (), s')"
  shows "0 \<le> num_components s \<and> num_components s \<le> int (total_mat (fst ev))
    \<and> cols (snd ev) = total_mat (fst ev)
    \<and> s' = s\<lparr>eigenvalues := mk_mat 1 (nat (num_components s))
                  (\<lambda>i j. mat_at (reshape_1_1 (fst ev)) 0 (argsort (reshape_1_1 (fst ev)) False ! j)),
              eigenvectors := mk_mat (rows (snd ev)) (nat (num_components s))
                  (\<lambda>i j. mat_at (snd ev) i (argsort (reshape_1_1 (fst ev)) False ! j))\<rparr>"
  using assms
  apply (simp add: select_components_def Let_def sortMatrixByColumn_def col_range_def argsort_length
      split: if_splits)
  apply (auto simp: mk_mat_def)
  done

lemma compute_unfold:
  "compute es src labels s mem =
     (if channels (mats mem ! src) \<noteq> 1 then (Inl StsBadArg, s, mem)
      else if length (vecs mem ! labels) \<noteq>
                (if dataAsRow s then rows (mats mem ! src) else cols (mats mem ! src))
      then (Inl StsBadArg, s, fst (snd (prepare src labels s mem)))
      else
        let s1 = (if num_components s \<le> 0
                     \<or> num_components s > int (length (remove_dups (vecs mem ! labels))) - 1
                  then s\<lparr>num_components := int (length (remove_dups (vecs mem ! labels))) - 1\<rparr>
                  else s);
            sc = scatter_of src labels s mem
        in case eigen_matrix (fst sc) (fst (snd sc)) of
             Inl e \<Rightarrow> (Inl e, s1, snd (snd sc))
           | Inr M \<Rightarrow>
               (fst (select_components (es M) s1), snd (select_components (es M) s1),
                snd (snd sc)))"
  by (cases "dataAsRow s")
     (simp_all add: compute_def scatter_of_def prepare_unfold transpose_mat_def Let_def
      split: prod.splits sum.splits)

lemma compute_success:
  assumes "compute es src labels s mem = (Inr (), s', mem')"
  shows "channels (mats mem ! src) = 1
    \<and> length (vecs mem ! labels) =
        (if dataAsRow s then rows (mats mem ! src) else cols (mats mem ! src))
    \<and> (\<exists>M. eigen_matrix (fst (scatter_of src labels s mem))
               (fst (snd (scatter_of src labels s mem))) = Inr M
          \<and> select_components (es M)
               (if num_components s \<le> 0
                   \<or> num_components s > int (length (remove_dups (vecs mem ! labels))) - 1
                then s\<lparr>num_components := int (length (remove_dups (vecs mem ! labels))) - 1\<rparr>
                else s) = (Inr (), s'))
    \<and> mem' = snd (snd (scatter_of src labels s mem))"
  using assms
  by (cases "dataAsRow s")
     (auto simp add: compute_def scatter_of_def prepare_unfold transpose_mat_def Let_def
      split: if_splits prod.splits sum.splits)

lemma compute_run:
  assumes "channels (mats mem ! src) = 1"
    and "prepare src labels s mem = (data, mem2, mapped_labels, num2label)"
    and "length (vecs mem2 ! labels) = rows (mats mem2 ! data)"
    and "scatter data mapped_labels (length num2label) mem2 = (Sw, Sb, mem3)"
    and "eigen_matrix Sw Sb = Inr M"
    and "select_components (es M)
           (if num_components s \<le> 0 \<or> num_components s > int (length num2label) - 1
            then s\<lparr>num_components := int (length num2label) - 1\<rparr> else s) = (r, s2)"
  shows "compute es src labels s mem = (r, s2, mem3)"
  using assms by (simp add: compute_def Let_def)


subsection \<open>Runs of the examples\<close>

lemma ex_run_two_classes:
  "compute es_diag 0 0 ex_fresh ex_store =
     (Inr (), ex_model, ex_store\<lparr>mats := [ex_data, ex_centered]\<rparr>)"
proof -
  have c: "channels (mats ex_store ! 0) = 1"
    by code_simp
  have p: "prepare 0 0 ex_fresh ex_store =
      (1, ex_store\<lparr>mats := [ex_data, ex_data]\<rparr>, [0, 0, 1, 1], [7, 3])"
    by code_simp
  have l: "length (vecs (ex_store\<lparr>mats := [ex_data, ex_data]\<rparr>) ! 0) =
      rows (mats (ex_store\<lparr>mats := [ex_data, ex_data]\<rparr>) ! 1)"
    by code_simp
  have sc: "scatter 1 [0, 0, 1, 1] (length [7, 3 :: int]) (ex_store\<lparr>mats := [ex_data, ex_data]\<rparr>) =
      (\<lparr>rows = 2, cols = 2, channels = 1, elems = [[2, 0], [0, 2]]\<rparr>,
       \<lparr>rows = 2, cols = 2, channels = 1, elems = [[0, 0], [0, 50]]\<rparr>,
       ex_store\<lparr>mats := [ex_data, ex_centered]\<rparr>)"
    by code_simp
  have em: "eigen_matrix \<lparr>rows = 2, cols = 2, channels = 1, elems = [[2, 0], [0, 2]]\<rparr>
       \<lparr>rows = 2, cols = 2, channels = 1, elems = [[0, 0], [0, 50]]\<rparr> =
      Inr \<lparr>rows = 2, cols = 2, channels = 1, elems = [[0, 0], [0, 25]]\<rparr>"
    by code_simp
  have sel: "select_components
       (es_diag \<lparr>rows = 2, cols = 2, channels = 1, elems = [[0, 0], [0, 25]]\<rparr>)
       (if num_components ex_fresh \<le> 0 \<or> num_components ex_fresh > int (length [7, 3 :: int]) - 1
        then ex_fresh\<lparr>num_components := int (length [7, 3 :: int]) - 1\<rparr> else ex_fresh) =
      (Inr (), ex_model)"
    by code_simp
  show ?thesis
    by (rule compute_run [where es = es_diag, OF c p l sc em sel])
qed

lemma ex_run_again:
  "compute es_diag 0 0 ex_model (ex_store\<lparr>mats := [ex_data, ex_centered]\<rparr>) =
     (Inr (), ex_model, ex_store\<lparr>mats := [ex_data, ex_centered, ex_centered]\<rparr>)"
proof -
  have c: "channels (mats (ex_store\<lparr>mats := [ex_data, ex_centered]\<rparr>) ! 0) = 1"
    by code_simp
  have p: "prepare 0 0 ex_model (ex_store\<lparr>mats := [ex_data, ex_centered]\<rparr>) =
      (2, ex_store\<lparr>mats := [ex_data, ex_centered, ex_data]\<rparr>, [0, 0, 1, 1], [7, 3])"
    by code_simp
  have l: "length (vecs (ex_store\<lparr>mats := [ex_data, ex_centered, ex_data]\<rparr>) ! 0) =
      rows (mats (ex_store\<lparr>mats := [ex_data, ex_centered, ex_data]\<rparr>) ! 2)"
    by code_simp
  have sc: "scatter 2 [0, 0, 1, 1] (length [7, 3 :: int])
       (ex_store\<lparr>mats := [ex_data, ex_centered, ex_data]\<rparr>) =
      (\<lparr>rows = 2, cols = 2, channels = 1, elems = [[2, 0], [0, 2]]\<rparr>,
       \<lparr>rows = 2, cols = 2, channels = 1, elems = [[0, 0], [0, 50]]\<rparr>,
       ex_store\<lparr>mats := [ex_data, ex_centered, ex_centered]\<rparr>)"
    by code_simp
  have em: "eigen_matrix \<lparr>rows = 2, cols = 2, channels = 1, elems = [[2, 0], [0, 2]]\<rparr>
       \<lparr>rows = 2, cols = 2, channels = 1, elems = [[0, 0], [0, 50]]\<rparr> =
      Inr \<lparr>rows = 2, cols = 2, channels = 1, elems = [[0, 0], [0, 25]]\<rparr>"
    by code_simp
  have sel: "select_components
       (es_diag \<lparr>rows = 2, cols = 2, channels = 1, elems = [[0, 0], [0, 25]]\<rparr>)
       (if num_components ex_model \<le> 0 \<or> num_components ex_model > int (length [7, 3 :: int]) - 1
        then ex_model\<lparr>num_components := int (length [7, 3 :: int]) - 1\<rparr> else ex_model) =
      (Inr (), ex_model)"
    by code_simp
  show ?thesis
    by (rule compute_run [where es = es_diag, OF c p l sc em sel])
qed

lemma ex_run_single_class:
  "compute es_diag 0 2 ex_fresh ex_store =
     (Inr (), ex_single,
      ex_store\<lparr>mats := [ex_data,
        \<lparr>rows = 4, cols = 2, channels = 1, elems = [[1, - 5], [- 1, - 5], [0, 6], [0, 4]]\<rparr>]\<rparr>)"
proof -
  have c: "channels (mats ex_store ! 0) = 1"
    by code_simp
  have p: "prepare 0 2 ex_fresh ex_store =
      (1, ex_store\<lparr>mats := [ex_data, ex_data]\<rparr>, [0, 0, 0, 0], [7])"
    by code_simp
  have l: "length (vecs (ex_store\<lparr>mats := [ex_data, ex_data]\<rparr>) ! 2) =
      rows (mats (ex_store\<lparr>mats := [ex_data, ex_data]\<rparr>) ! 1)"
    by code_simp
  have sc: "scatter 1 [0, 0, 0, 0] (length [7 :: int]) (ex_store\<lparr>mats := [ex_data, ex_data]\<rparr>) =
      (\<lparr>rows = 2, cols = 2, channels = 1, elems = [[2, 0], [0, 102]]\<rparr>,
       \<lparr>rows = 2, cols = 2, channels = 1, elems = [[0, 0], [0, 0]]\<rparr>,
       ex_store\<lparr>mats := [ex_data,
        \<lparr>rows = 4, cols = 2, channels = 1, elems = [[1, - 5], [- 1, - 5], [0, 6], [0, 4]]\<rparr>]\<rparr>)"
    by code_simp
  have em: "eigen_matrix \<lparr>rows = 2, cols = 2, channels = 1, elems = [[2, 0], [0, 102]]\<rparr>
       \<lparr>rows = 2, cols = 2, channels = 1, elems = [[0, 0], [0, 0]]\<rparr> =
      Inr \<lparr>rows = 2, cols = 2, channels = 1, elems = [[0, 0], [0, 0]]\<rparr>"
    by code_simp
  have sel: "select_components
       (es_diag \<lparr>rows = 2, cols = 2, channels = 1, elems = [[0, 0], [0, 0]]\<rparr>)
       (if num_components ex_fresh \<le> 0 \<or> num_components ex_fresh > int (length [7 :: int]) - 1
        then ex_fresh\<lparr>num_components := int (length [7 :: int]) - 1\<rparr> else ex_fresh) =
      (Inr (), ex_single)"
    by code_simp
  show ?thesis
    by (rule compute_run [where es = es_diag, OF c p l sc em sel])
qed


subsection \<open>The number of components\<close>

text \<open>
  Claim C1.  After a successful \<^verbatim>\<open>compute\<close> on labels with \<open>C\<close> distinct values the
  field \<^verbatim>\<open>_num_components\<close> holds \<open>C - 1\<close> when the configured value was \<open>\<le> 0\<close> or
  \<open>> C - 1\<close> and the configured value otherwise, and the eigenvalues and the eigenvectors
  have exactly that many columns.  The field keeps the clipped value: a later successful
  call starts from it, not from the value configured at first.
\<close>

theorem compute_component_count:
  assumes "compute es src labels s mem = (Inr (), s', mem')"
  shows "num_components s' =
           (if num_components s \<le> 0 \<or> num_components s > int (card (set (vecs mem ! labels))) - 1
            then int (card (set (vecs mem ! labels))) - 1 else num_components s)
       \<and> int (cols (eigenvalues s')) = num_components s'
       \<and> int (cols (eigenvectors s')) = num_components s'
       \<and> (\<forall>es2 src2 labels2 s'' mem''.
             compute es2 src2 labels2 s' mem' = (Inr (), s'', mem'') \<longrightarrow>
               num_components s'' =
                 (if num_components s' \<le> 0
                     \<or> num_components s' > int (card (set (vecs mem' ! labels2))) - 1
                  then int (card (set (vecs mem' ! labels2))) - 1 else num_components s'))"
proof -
  have *: "num_components t' =
           (if num_components t \<le> 0 \<or> num_components t > int (card (set (vecs m ! l))) - 1
            then int (card (set (vecs m ! l))) - 1 else num_components t)
       \<and> int (cols (eigenvalues t')) = num_components t'
       \<and> int (cols (eigenvectors t')) = num_components t' \<and> 0 \<le> num_components t'"
    if "compute e a l t m = (Inr (), t', m')" for e a l t m t' m'
  proof -
    from compute_success [OF that] obtain M where
      sel: "select_components (e M)
               (if num_components t \<le> 0
                   \<or> num_components t > int (length (remove_dups (vecs m ! l))) - 1
                then t\<lparr>num_components := int (length (remove_dups (vecs m ! l))) - 1\<rparr>
                else t) = (Inr (), t')"
      by blast
    from select_components_success [OF sel] show ?thesis
      by (auto simp: remove_dups_length split: if_splits)
  qed
  from * [OF assms] have 1: "num_components s' =
           (if num_components s \<le> 0 \<or> num_components s > int (card (set (vecs mem ! labels))) - 1
            then int (card (set (vecs mem ! labels))) - 1 else num_components s)
       \<and> int (cols (eigenvalues s')) = num_components s'
       \<and> int (cols (eigenvectors s')) = num_components s'" and pos: "0 \<le> num_components s'"
    by simp_all
  have 2: "num_components s'' =
         (if num_components s' \<le> 0 \<or> num_components s' > int (card (set (vecs mem' ! labels2))) - 1
          then int (card (set (vecs mem' ! labels2))) - 1 else num_components s')"
    if "compute es2 src2 labels2 s' mem' = (Inr (), s'', mem'')" for es2 src2 labels2 s'' mem''
    using * [OF that] by simp
  from 1 2 show ?thesis by blast
qed

theorem compute_component_count_witness:
  "compute es_diag 0 0 ex_fresh ex_store =
     (Inr (), ex_model, ex_store\<lparr>mats := [ex_data, ex_centered]\<rparr>)
   \<and> num_components ex_fresh = 0 \<and> card (set (vecs ex_store ! 0)) = 2
   \<and> num_components ex_model = 1
   \<and> int (cols (eigenvalues ex_model)) = 1 \<and> int (cols (eigenvectors ex_model)) = 1
   \<and> compute es_diag 0 0 ex_model (ex_store\<lparr>mats := [ex_data, ex_centered]\<rparr>) =
       (Inr (), ex_model, ex_store\<lparr>mats := [ex_data, ex_centered, ex_centered]\<rparr>)"
proof -
  have "card (set (vecs ex_store ! 0)) = 2"
    by (simp add: ex_store_def)
  with compute_component_count [OF ex_run_two_classes] ex_run_two_classes ex_run_again
  show ?thesis
    by (simp add: ex_fresh_def)
qed


subsection \<open>A single class\<close>

lemma eigen_matrix_error: "eigen_matrix Sw Sb \<noteq> Inl StsBadArg"
  by (simp add: eigen_matrix_def inv_mat_def gemm_def Let_def split: sum.splits)

lemma select_components_error: "fst (select_components ev s) \<noteq> Inl StsBadArg"
  by (simp add: select_components_def sortMatrixByColumn_def col_range_def Let_def
      split: sum.splits)

lemma compute_StsBadArg:
  "fst (compute es src labels s mem) = Inl StsBadArg \<longleftrightarrow>
     channels (mats mem ! src) \<noteq> 1
     \<or> length (vecs mem ! labels) \<noteq>
         (if dataAsRow s then rows (mats mem ! src) else cols (mats mem ! src))"
proof -
  have "e \<noteq> StsBadArg" if "eigen_matrix Sw Sb = Inl e" for Sw Sb e
    using eigen_matrix_error [of Sw Sb] that by auto
  then show ?thesis
    using select_components_error
    by (auto simp: compute_unfold Let_def split: sum.splits)
qed


text \<open>
  Claim C7, as the code has it.  \<^verbatim>\<open>compute\<close> has no check of the number of classes: it
  fails with \<^verbatim>\<open>CV_StsBadArg\<close> exactly for a multi-channel \<open>src\<close> and for a label count
  that differs from the sample count.  For labels of a single class the component count
  is clipped to \<open>C - 1 = 0\<close>, and a call that succeeds leaves a model with no components.
\<close>

theorem compute_single_class:
  assumes "card (set (vecs mem ! labels)) = 1"
  shows "(fst (compute es src labels s mem) = Inl StsBadArg \<longleftrightarrow>
            channels (mats mem ! src) \<noteq> 1
            \<or> length (vecs mem ! labels) \<noteq>
                (if dataAsRow s then rows (mats mem ! src) else cols (mats mem ! src)))
       \<and> (\<forall>s' mem'. compute es src labels s mem = (Inr (), s', mem') \<longrightarrow>
             num_components s' = 0 \<and> cols (eigenvalues s') = 0 \<and> cols (eigenvectors s') = 0)"
proof -
  have "num_components s' = 0 \<and> cols (eigenvalues s') = 0 \<and> cols (eigenvectors s') = 0"
    if "compute es src labels s mem = (Inr (), s', mem')" for s' mem'
  proof -
    from compute_success [OF that] obtain M where
      sel: "select_components (es M)
               (if num_components s \<le> 0
                   \<or> num_components s > int (length (remove_dups (vecs mem ! labels))) - 1
                then s\<lparr>num_components := int (length (remove_dups (vecs mem ! labels))) - 1\<rparr>
                else s) = (Inr (), s')"
      by blast
    from select_components_success [OF sel] assms show ?thesis
      by (auto simp: remove_dups_length split: if_splits)
  qed
  then show ?thesis
    by (simp add: compute_StsBadArg)
qed

theorem compute_single_class_witness:
  "card (set (vecs ex_store ! 2)) = 1
   \<and> compute es_diag 0 2 ex_fresh ex_store =
       (Inr (), ex_single,
        ex_store\<lparr>mats := [ex_data,
          \<lparr>rows = 4, cols = 2, channels = 1, elems = [[1, - 5], [- 1, - 5], [0, 6], [0, 4]]\<rparr>]\<rparr>)
   \<and> num_components ex_single = 0 \<and> cols (eigenvalues ex_single) = 0
   \<and> cols (eigenvectors ex_single) = 0"
proof -
  have h: "card (set (vecs ex_store ! 2)) = 1"
    by (simp add: ex_store_def)
  from compute_single_class [OF h, of es_diag 0 ex_fresh] ex_run_single_class h
  show ?thesis
    by simp
qed

theorem compute_single_class_counterexample:
  "card (set (vecs ex_store ! 2)) = 1
   \<and> fst (compute es_diag 0 2 ex_fresh ex_store) = Inr ()
   \<and> fst (compute es_diag 0 2 ex_fresh ex_store) \<noteq> Inl StsBadArg
   \<and> num_components (fst (snd (compute es_diag 0 2 ex_fresh ex_store))) = 0
   \<and> cols (eigenvectors (fst (snd (compute es_diag 0 2 ex_fresh ex_store)))) = 0"
proof -
  have "card (set (vecs ex_store ! 2)) = 1"
    by (simp add: ex_store_def)
  then show ?thesis
    by (simp add: ex_run_single_class ex_single_def)
qed

subsection \<open>A singular within-classes scatter\<close>

lemma scatter_Sw_dims:
  "rows (fst (scatter d ml C mem)) = cols (fst (scatter d ml C mem))"
  by (simp add: scatter_def mulTransposed_def mat_mul_def transpose_mat_def Let_def
      split: prod.splits)

lemma eigen_matrix_cases:
  "eigen_matrix Sw Sb = Inl SingularMatrix \<longleftrightarrow> rows Sw = cols Sw \<and> det (elems Sw) = 0"
  by (simp add: eigen_matrix_def inv_mat_def gemm_def Let_def split: sum.splits)

lemma select_components_not_singular: "fst (select_components ev s) \<noteq> Inl SingularMatrix"
  by (simp add: select_components_def sortMatrixByColumn_def col_range_def Let_def
      split: sum.splits)

text \<open>
  Claim C5.  On an input that passes the two checks of the arguments, \<^verbatim>\<open>compute\<close> fails
  with the SingularMatrix error exactly when the within-classes scatter matrix \<open>Sw\<close> it
  has built is singular (its determinant is zero): the error of the inversion reaches
  the caller, no later step replaces it and no other failure is reported under its name.
\<close>

theorem compute_singular_scatter:
  assumes "channels (mats mem ! src) = 1"
    and "length (vecs mem ! labels) =
           (if dataAsRow s then rows (mats mem ! src) else cols (mats mem ! src))"
  shows "fst (compute es src labels s mem) = Inl SingularMatrix \<longleftrightarrow>
           det (elems (fst (scatter_of src labels s mem))) = 0"
proof -
  have sq: "rows (fst (scatter_of src labels s mem)) = cols (fst (scatter_of src labels s mem))"
    by (simp add: scatter_of_def scatter_Sw_dims split: prod.splits)
  show ?thesis
    using assms sq eigen_matrix_cases [of "fst (scatter_of src labels s mem)"
        "fst (snd (scatter_of src labels s mem))"]
      select_components_not_singular
    by (auto simp: compute_unfold Let_def split: sum.splits)
qed

lemma ex_scatter_singular:
  "scatter_of 0 3 ex_fresh ex_store =
     (\<lparr>rows = 2, cols = 2, channels = 1, elems = [[0, 0], [0, 0]]\<rparr>,
      \<lparr>rows = 2, cols = 2, channels = 1, elems = [[2, 0], [0, 102]]\<rparr>,
      ex_store\<lparr>mats := [ex_data,
        \<lparr>rows = 4, cols = 2, channels = 1, elems = [[0, 0], [0, 0], [0, 0], [0, 0]]\<rparr>]\<rparr>)"
proof -
  have p: "prepare 0 3 ex_fresh ex_store =
      (1, ex_store\<lparr>mats := [ex_data, ex_data]\<rparr>, [0, 1, 2, 3], [1, 2, 3, 4])"
    by code_simp
  have sc: "scatter 1 [0, 1, 2, 3] (length [1, 2, 3, 4 :: int])
       (ex_store\<lparr>mats := [ex_data, ex_data]\<rparr>) =
     (\<lparr>rows = 2, cols = 2, channels = 1, elems = [[0, 0], [0, 0]]\<rparr>,
      \<lparr>rows = 2, cols = 2, channels = 1, elems = [[2, 0], [0, 102]]\<rparr>,
      ex_store\<lparr>mats := [ex_data,
        \<lparr>rows = 4, cols = 2, channels = 1, elems = [[0, 0], [0, 0], [0, 0], [0, 0]]\<rparr>]\<rparr>)"
    by code_simp
  show ?thesis
    by (simp only: scatter_of_def p sc prod.case)
qed

theorem compute_singular_scatter_witness:
  "channels (mats ex_store ! 0) = 1
   \<and> length (vecs ex_store ! 3) =
       (if dataAsRow ex_fresh then rows (mats ex_store ! 0) else cols (mats ex_store ! 0))
   \<and> det (elems (fst (scatter_of 0 3 ex_fresh ex_store))) = 0
   \<and> fst (compute es_diag 0 3 ex_fresh ex_store) = Inl SingularMatrix"
proof -
  have c: "channels (mats ex_store ! 0) = 1"
    by (simp add: ex_store_def ex_data_def)
  have l: "length (vecs ex_store ! 3) =
       (if dataAsRow ex_fresh then rows (mats ex_store ! 0) else cols (mats ex_store ! 0))"
    by (simp add: ex_store_def ex_data_def ex_fresh_def)
  have d: "det (elems (fst (scatter_of 0 3 ex_fresh ex_store))) = 0"
    by (simp add: ex_scatter_singular)
  from compute_singular_scatter [OF c l, of es_diag] c l d show ?thesis
    by simp
qed

subsection \<open>The order of the eigenvalues\<close>

lemma argsort_distinct: "distinct (argsort m asc)"
  by (simp add: argsort_def Let_def)

lemma argsort_descending:
  "sorted_wrt (\<lambda>a b. mat_at (reshape_1_1 m) 0 a \<ge> mat_at (reshape_1_1 m) 0 b) (argsort m False)"
proof -
  have "sorted (map (\<lambda>i. - mat_at (reshape_1_1 m) 0 i) (argsort m False))"
    by (simp add: argsort_def Let_def)
  then show ?thesis
    by (simp add: sorted_map)
qed

lemma argsort_stable:
  "filter (\<lambda>i. mat_at (reshape_1_1 m) 0 i = v) (argsort m False) =
     filter (\<lambda>i. mat_at (reshape_1_1 m) 0 i = v) [0..<total_mat m]"
  using sort_key_stable [of "\<lambda>i. - mat_at (reshape_1_1 m) 0 i" "- v" "[0..<total_mat m]"]
  by (simp add: argsort_def Let_def)

lemma reshape_reshape [simp]: "reshape_1_1 (reshape_1_1 m) = reshape_1_1 m"
  by (simp add: reshape_1_1_def total_mat_def cong: mk_mat_cong)

lemma argsort_reshape [simp]: "argsort (reshape_1_1 m) asc = argsort m asc"
  by (simp add: argsort_def Let_def)

text \<open>
  Claim C2.  After a successful \<^verbatim>\<open>compute\<close> the retained eigenvalues are in
  non-increasing order.  They and the retained eigenvector columns are taken through the
  same index list \<open>argsort\<close>, a permutation of the positions of the eigenvalues that the
  decomposition returned for \<open>M\<close>: position \<open>j\<close> of the result holds eigenvalue and
  eigenvector column \<open>argsort ! j\<close>.  The permutation is sorted by descending eigenvalue
  and stable (positions of equal eigenvalues keep their order), hence a function of the
  eigenvalues alone.
\<close>

theorem compute_eigenvalues_sorted:
  assumes "compute es src labels s mem = (Inr (), s', mem')"
  shows "\<exists>M. eigen_matrix (fst (scatter_of src labels s mem))
              (fst (snd (scatter_of src labels s mem))) = Inr M
     \<and> sorted_wrt (\<ge>) (map (mat_at (eigenvalues s') 0) [0..<cols (eigenvalues s')])
     \<and> distinct (argsort (fst (es M)) False)
     \<and> set (argsort (fst (es M)) False) = {..<total_mat (fst (es M))}
     \<and> sorted_wrt (\<lambda>a b. mat_at (reshape_1_1 (fst (es M))) 0 a
                           \<ge> mat_at (reshape_1_1 (fst (es M))) 0 b) (argsort (fst (es M)) False)
     \<and> (\<forall>v. filter (\<lambda>i. mat_at (reshape_1_1 (fst (es M))) 0 i = v) (argsort (fst (es M)) False) =
            filter (\<lambda>i. mat_at (reshape_1_1 (fst (es M))) 0 i = v) [0..<total_mat (fst (es M))])
     \<and> eigenvalues s' =
          mk_mat 1 (nat (num_components s'))
            (\<lambda>i j. mat_at (reshape_1_1 (fst (es M))) 0 (argsort (fst (es M)) False ! j))
     \<and> eigenvectors s' =
          mk_mat (rows (snd (es M))) (nat (num_components s'))
            (\<lambda>i j. mat_at (snd (es M)) i (argsort (fst (es M)) False ! j))"
proof -
  from compute_success [OF assms] obtain M s1 where
    M: "eigen_matrix (fst (scatter_of src labels s mem))
          (fst (snd (scatter_of src labels s mem))) = Inr M"
    and sel: "select_components (es M) s1 = (Inr (), s')"
    by blast
  let ?v = "reshape_1_1 (fst (es M))"
  let ?idx = "argsort (fst (es M)) False"
  from select_components_success [OF sel]
  have K: "0 \<le> num_components s1" "num_components s1 \<le> int (total_mat (fst (es M)))"
    and s': "s' = s1\<lparr>eigenvalues := mk_mat 1 (nat (num_components s1))
                  (\<lambda>i j. mat_at ?v 0 (?idx ! j)),
              eigenvectors := mk_mat (rows (snd (es M))) (nat (num_components s1))
                  (\<lambda>i j. mat_at (snd (es M)) i (?idx ! j))\<rparr>"
    by simp_all
  have desc: "sorted_wrt (\<lambda>a b. mat_at ?v 0 a \<ge> mat_at ?v 0 b) ?idx"
    by (rule argsort_descending)
  have "mat_at (eigenvalues s') 0 a \<ge> mat_at (eigenvalues s') 0 b"
    if "a < b" "b < cols (eigenvalues s')" for a b
  proof -
    from that K have lt: "a < nat (num_components s1)" "b < nat (num_components s1)"
      "b < length ?idx"
      by (simp_all add: s' argsort_length)
    from desc that lt(3) have "mat_at ?v 0 (?idx ! a) \<ge> mat_at ?v 0 (?idx ! b)"
      by (simp add: sorted_wrt_iff_nth_less)
    with lt show ?thesis
      by (simp add: s')
  qed
  then have "sorted_wrt (\<ge>) (map (mat_at (eigenvalues s') 0) [0..<cols (eigenvalues s')])"
    by (simp add: sorted_wrt_iff_nth_less)
  with M desc show ?thesis
    by (auto simp: s' argsort_distinct argsort_set argsort_stable intro!: exI [of _ M])
qed

theorem compute_eigenvalues_sorted_witness:
  "compute es_diag 0 0 ex_fresh ex_store =
     (Inr (), ex_model, ex_store\<lparr>mats := [ex_data, ex_centered]\<rparr>)
   \<and> sorted_wrt (\<ge>) (map (mat_at (eigenvalues ex_model) 0) [0..<cols (eigenvalues ex_model)])
   \<and> (\<exists>M. eigen_matrix (fst (scatter_of 0 0 ex_fresh ex_store))
              (fst (snd (scatter_of 0 0 ex_fresh ex_store))) = Inr M
         \<and> eigenvectors ex_model =
             mk_mat (rows (snd (es_diag M))) (nat (num_components ex_model))
               (\<lambda>i j. mat_at (snd (es_diag M)) i (argsort (fst (es_diag M)) False ! j)))"
  using compute_eigenvalues_sorted [OF ex_run_two_classes] ex_run_two_classes
  by blast

subsection \<open>The means and the scatter matrices\<close>

lemma map_upt_update:
  "c < C \<Longrightarrow> (map f [0..<C])[c := v] = map (\<lambda>c'. if c' = c then v else f c') [0..<C]"
  by (rule nth_equalityI) (auto simp: nth_list_update)

lemma sum_step_sums_upto:
  assumes "ml ! n < C"
  shows "sum_step X ml n (sums_upto X ml C n) = sums_upto X ml C (Suc n)"
  using assms
  by (auto simp add: sums_upto_def sum_step_def Let_def add_def row_def map_upt_update
      cong: mk_mat_cong)

lemma sum_step_fold:
  assumes "\<And>k. k < n \<Longrightarrow> ml ! k < C"
  shows "fold (sum_step X ml) [0..<n]
           (zeros 1 (cols X), replicate C (zeros 1 (cols X)), replicate C 0) =
         sums_upto X ml C n"
  using assms
proof (induction n)
  case 0
  show ?case
    by (simp add: sums_upto_def zeros_def map_replicate_const)
next
  case (Suc n)
  then have "fold (sum_step X ml) [0..<n]
           (zeros 1 (cols X), replicate C (zeros 1 (cols X)), replicate C 0) =
         sums_upto X ml C n" and "ml ! n < C"
    by simp_all
  then show ?case
    by (simp add: sum_step_sums_upto)
qed

lemma class_means_closed:
  assumes "\<And>k. k < rows X \<Longrightarrow> ml ! k < C"
  shows "class_means X ml C =
     (mk_mat 1 (cols X) (\<lambda>i j. (\<Sum>k<rows X. mat_at X k j) * (1 / real (rows X))),
      map (\<lambda>c. mk_mat 1 (cols X)
                 (\<lambda>i j. (\<Sum>k<rows X. if ml ! k = c then mat_at X k j else 0)
                          * (1 / real (\<Sum>k<rows X. if ml ! k = c then 1 else 0 :: nat))))
        [0..<C])"
  using sum_step_fold [of "rows X" ml C X, OF assms]
  by (simp add: class_means_def Let_def sums_upto_def convertTo_scaled_def cong: mk_mat_cong)

lemma center_step_at:
  assumes "d < length (mats mem)"
  shows "mats (center_step d ml mc n mem) ! d =
     mk_mat (rows (mats mem ! d)) (cols (mats mem ! d))
       (\<lambda>i j. if i = n then mat_at (mats mem ! d) n j - mat_at (mc ! (ml ! n)) 0 j
               else mat_at (mats mem ! d) i j)"
  using assms
  by (simp add: center_step_def store_row_def set_row_def subtract_def row_def Let_def
      cong: mk_mat_cong if_cong)

lemma center_fold:
  assumes "d < length (mats mem)" and "n \<le> rows (mats mem ! d)"
  shows "rows (mats (fold (center_step d ml mc) [0..<n] mem) ! d) = rows (mats mem ! d)
    \<and> cols (mats (fold (center_step d ml mc) [0..<n] mem) ! d) = cols (mats mem ! d)
    \<and> (\<forall>i<rows (mats mem ! d). \<forall>j<cols (mats mem ! d).
          mat_at (mats (fold (center_step d ml mc) [0..<n] mem) ! d) i j =
            centered_upto (mats mem ! d) ml mc n i j)"
  using assms(2)
proof (induction n)
  case 0
  show ?case by (simp add: centered_upto_def)
next
  case (Suc n)
  let ?m = "fold (center_step d ml mc) [0..<n] mem"
  from Suc have IH: "rows (mats ?m ! d) = rows (mats mem ! d)"
    "cols (mats ?m ! d) = cols (mats mem ! d)"
    "\<And>i j. i < rows (mats mem ! d) \<Longrightarrow> j < cols (mats mem ! d) \<Longrightarrow>
        mat_at (mats ?m ! d) i j = centered_upto (mats mem ! d) ml mc n i j"
    and n: "n < rows (mats mem ! d)"
    by simp_all
  have len: "d < length (mats ?m)"
    using fold_center_step_frame [of d ml mc "[0..<n]" mem] assms(1) by simp
  show ?case
    using n by (auto simp: center_step_at [OF len] IH centered_upto_def)
qed

lemma Sb_step_closed:
  assumes "rows (mc ! n) = 1" and "cols (mc ! n) = D"
  shows "Sb_step mc T n (mk_mat D D f) =
     mk_mat D D (\<lambda>a b. f a b + (mat_at (mc ! n) 0 a - mat_at T 0 a)
                                 * (mat_at (mc ! n) 0 b - mat_at T 0 b))"
  by (simp add: Sb_step_def Let_def subtract_def mulTransposed_def mat_mul_def
      transpose_mat_def add_def assms sum_list_upt cong: mk_mat_cong)

lemma Sb_fold:
  assumes "\<And>c. c < n \<Longrightarrow> rows (mc ! c) = 1 \<and> cols (mc ! c) = D"
  shows "fold (Sb_step mc T) [0..<n] (zeros D D) =
     mk_mat D D (\<lambda>a b. \<Sum>c<n. (mat_at (mc ! c) 0 a - mat_at T 0 a)
                               * (mat_at (mc ! c) 0 b - mat_at T 0 b))"
  using assms
proof (induction n)
  case 0
  show ?case by (simp add: zeros_def)
next
  case (Suc n)
  then have IH: "fold (Sb_step mc T) [0..<n] (zeros D D) =
     mk_mat D D (\<lambda>a b. \<Sum>c<n. (mat_at (mc ! c) 0 a - mat_at T 0 a)
                               * (mat_at (mc ! c) 0 b - mat_at T 0 b))"
    and d: "rows (mc ! n) = 1" "cols (mc ! n) = D"
    by simp_all
  show ?case
    by (simp add: IH Sb_step_closed [OF d])
qed

lemma label2num_fold:
  assumes "distinct xs" and "n \<le> length xs" and "k < n"
  shows "fold (\<lambda>i m. m(xs ! i \<mapsto> i)) [0..<n] Map.empty (xs ! k) = Some k"
  using assms(2,3)
proof (induction n)
  case 0
  then show ?case by simp
next
  case (Suc n)
  show ?case
  proof (cases "k = n")
    case True
    then show ?thesis by simp
  next
    case False
    with Suc.prems have k: "k < n" and n: "n < length xs" by simp_all
    then have "xs ! n \<noteq> xs ! k"
      using assms(1) False by (simp add: nth_eq_iff_index_eq)
    with Suc.IH k n show ?thesis by simp
  qed
qed

lemma map_labels_nth:
  assumes "i < length lbls"
  shows "map_labels (remove_dups lbls) lbls ! i < length (remove_dups lbls)
    \<and> remove_dups lbls ! (map_labels (remove_dups lbls) lbls ! i) = lbls ! i"
proof -
  from assms have "lbls ! i \<in> set (remove_dups lbls)"
    by (simp add: remove_dups_set)
  then obtain k where k: "k < length (remove_dups lbls)" "remove_dups lbls ! k = lbls ! i"
    by (auto simp: in_set_conv_nth)
  have "fold (\<lambda>i m. m(remove_dups lbls ! i \<mapsto> i)) [0..<length (remove_dups lbls)] Map.empty
      (lbls ! i) = Some k"
    using label2num_fold [OF remove_dups_distinct order_refl k(1)] k(2) by simp
  then have "map_labels (remove_dups lbls) lbls ! i = k"
    using assms by (simp add: map_labels_def Let_def)
  with k show ?thesis by simp
qed

lemma map_labels_length [simp]: "length (map_labels n2l lbls) = length lbls"
  by (simp add: map_labels_def Let_def)

lemma map_labels_eq_class:
  assumes "k < length lbls" and "c < length (remove_dups lbls)"
  shows "map_labels (remove_dups lbls) lbls ! k = c \<longleftrightarrow> lbls ! k = remove_dups lbls ! c"
  using map_labels_nth [OF assms(1)] assms(2) remove_dups_distinct [of lbls]
  by (auto simp: nth_eq_iff_index_eq)

lemma cond_sum_filter:
  "(\<Sum>k<n. if P k then f k else (0::real)) = sum_list (map f (filter P [0..<n]))"
  by (simp add: sum_list_map_filter' sum_list_upt)

lemma cond_count_filter: "(\<Sum>k<n. if P k then 1 else (0::nat)) = length (filter P [0..<n])"
  by (induction n) simp_all

lemma class_sum_spec:
  assumes "c < length (remove_dups lbls)"
  shows "(\<Sum>k<length lbls. if map_labels (remove_dups lbls) lbls ! k = c then mat_at X k j else 0)
           * (1 / real (\<Sum>k<length lbls. if map_labels (remove_dups lbls) lbls ! k = c
                                          then 1 else 0 :: nat))
         = spec_class_mean X lbls (remove_dups lbls ! c) j"
proof -
  have 1: "(\<Sum>k<length lbls. if map_labels (remove_dups lbls) lbls ! k = c then mat_at X k j else 0)
      = (\<Sum>k<length lbls. if lbls ! k = remove_dups lbls ! c then mat_at X k j else 0)"
    by (rule sum.cong) (simp_all add: map_labels_eq_class [OF _ assms])
  have 2: "(\<Sum>k<length lbls. if map_labels (remove_dups lbls) lbls ! k = c then 1 else 0 :: nat)
      = (\<Sum>k<length lbls. if lbls ! k = remove_dups lbls ! c then 1 else 0)"
    by (rule sum.cong) (simp_all add: map_labels_eq_class [OF _ assms])
  show ?thesis
    unfolding 1 2
    by (simp add: spec_class_mean_def class_rows_def cond_sum_filter cond_count_filter)
qed

lemma class_means_spec:
  assumes len: "length lbls = rows X"
  shows "class_means X (map_labels (remove_dups lbls) lbls) (length (remove_dups lbls)) =
     (mk_mat 1 (cols X) (\<lambda>i j. spec_total_mean X j),
      map (\<lambda>c. mk_mat 1 (cols X) (\<lambda>i j. spec_class_mean X lbls (remove_dups lbls ! c) j))
        [0..<length (remove_dups lbls)])"
proof -
  have lt: "map_labels (remove_dups lbls) lbls ! k < length (remove_dups lbls)" if "k < rows X" for k
    using map_labels_nth [of k lbls] that len by simp
  have tm: "(\<Sum>k<rows X. mat_at X k j) * (1 / real (rows X)) = spec_total_mean X j" for j
    by (simp add: spec_total_mean_def sum_list_upt)
  have cm: "(\<Sum>k<rows X. if map_labels (remove_dups lbls) lbls ! k = c then mat_at X k j else 0)
           * (1 / real (\<Sum>k<rows X. if map_labels (remove_dups lbls) lbls ! k = c
                                          then 1 else 0 :: nat))
         = spec_class_mean X lbls (remove_dups lbls ! c) j"
    if "c < length (remove_dups lbls)" for c j
    using class_sum_spec [OF that, of X j] len by simp
  have "class_means X (map_labels (remove_dups lbls) lbls) (length (remove_dups lbls)) =
     (mk_mat 1 (cols X) (\<lambda>i j. (\<Sum>k<rows X. mat_at X k j) * (1 / real (rows X))),
      map (\<lambda>c. mk_mat 1 (cols X)
                 (\<lambda>i j. (\<Sum>k<rows X. if map_labels (remove_dups lbls) lbls ! k = c
                                        then mat_at X k j else 0)
                          * (1 / real (\<Sum>k<rows X. if map_labels (remove_dups lbls) lbls ! k = c
                                                      then 1 else 0 :: nat))))
        [0..<length (remove_dups lbls)])"
    by (rule class_means_closed) (rule lt)
  also have "\<dots> = (mk_mat 1 (cols X) (\<lambda>i j. spec_total_mean X j),
      map (\<lambda>c. mk_mat 1 (cols X) (\<lambda>i j. spec_class_mean X lbls (remove_dups lbls ! c) j))
        [0..<length (remove_dups lbls)])"
    unfolding tm using cm by simp
  finally show ?thesis .
qed

lemma scatter_closed:
  assumes d: "d < length (mats mem)" and len: "length lbls = rows (mats mem ! d)"
  shows "rows (mats (snd (snd (scatter d (map_labels (remove_dups lbls) lbls)
              (length (remove_dups lbls)) mem))) ! d) = rows (mats mem ! d)"
    and "cols (mats (snd (snd (scatter d (map_labels (remove_dups lbls) lbls)
              (length (remove_dups lbls)) mem))) ! d) = cols (mats mem ! d)"
    and "\<And>i j. i < rows (mats mem ! d) \<Longrightarrow> j < cols (mats mem ! d) \<Longrightarrow>
          mat_at (mats (snd (snd (scatter d (map_labels (remove_dups lbls) lbls)
              (length (remove_dups lbls)) mem))) ! d) i j =
            mat_at (mats mem ! d) i j - spec_class_mean (mats mem ! d) lbls (lbls ! i) j"
    and "fst (scatter d (map_labels (remove_dups lbls) lbls) (length (remove_dups lbls)) mem) =
          mulTransposed (mats (snd (snd (scatter d (map_labels (remove_dups lbls) lbls)
              (length (remove_dups lbls)) mem))) ! d) True"
    and "fst (snd (scatter d (map_labels (remove_dups lbls) lbls) (length (remove_dups lbls)) mem)) =
          mk_mat (cols (mats mem ! d)) (cols (mats mem ! d))
            (\<lambda>a b. \<Sum>c<length (remove_dups lbls).
               (spec_class_mean (mats mem ! d) lbls (remove_dups lbls ! c) a
                  - spec_total_mean (mats mem ! d) a)
               * (spec_class_mean (mats mem ! d) lbls (remove_dups lbls ! c) b
                  - spec_total_mean (mats mem ! d) b))"
proof -
  let ?X = "mats mem ! d"
  let ?ml = "map_labels (remove_dups lbls) lbls"
  let ?C = "length (remove_dups lbls)"
  let ?mc = "map (\<lambda>c. mk_mat (Suc 0) (cols ?X) (\<lambda>i j. spec_class_mean ?X lbls (remove_dups lbls ! c) j))
        [0..<?C]"
  let ?T = "mk_mat (Suc 0) (cols ?X) (\<lambda>i j. spec_total_mean ?X j)"
  let ?mem' = "fold (center_step d ?ml ?mc) [0..<rows ?X] mem"
  have sc: "scatter d ?ml ?C mem =
      (mulTransposed (mats ?mem' ! d) True, fold (Sb_step ?mc ?T) [0..<?C] (zeros (cols ?X) (cols ?X)),
       ?mem')"
    by (simp add: scatter_def Let_def class_means_spec [OF len])
  from center_fold [OF d order_refl, of ?ml ?mc]
  have cf: "rows (mats ?mem' ! d) = rows ?X" "cols (mats ?mem' ! d) = cols ?X"
    "\<And>i j. i < rows ?X \<Longrightarrow> j < cols ?X \<Longrightarrow>
        mat_at (mats ?mem' ! d) i j = centered_upto ?X ?ml ?mc (rows ?X) i j"
    by simp_all
  show "rows (mats (snd (snd (scatter d ?ml ?C mem))) ! d) = rows ?X"
    by (simp add: sc cf)
  show "cols (mats (snd (snd (scatter d ?ml ?C mem))) ! d) = cols ?X"
    by (simp add: sc cf)
  show "mat_at (mats (snd (snd (scatter d ?ml ?C mem))) ! d) i j =
      mat_at ?X i j - spec_class_mean ?X lbls (lbls ! i) j"
    if "i < rows ?X" "j < cols ?X" for i j
  proof -
    from that(1) len have "i < length lbls" by simp
    from map_labels_nth [OF this] that show ?thesis
      by (simp add: sc cf centered_upto_def)
  qed
  show "fst (scatter d ?ml ?C mem) =
      mulTransposed (mats (snd (snd (scatter d ?ml ?C mem))) ! d) True"
    by (simp add: sc)
  have "fold (Sb_step ?mc ?T) [0..<?C] (zeros (cols ?X) (cols ?X)) =
     mk_mat (cols ?X) (cols ?X) (\<lambda>a b. \<Sum>c<?C. (mat_at (?mc ! c) 0 a - mat_at ?T 0 a)
                               * (mat_at (?mc ! c) 0 b - mat_at ?T 0 b))"
    by (rule Sb_fold) simp
  then show "fst (snd (scatter d ?ml ?C mem)) =
      mk_mat (cols ?X) (cols ?X)
        (\<lambda>a b. \<Sum>c<?C.
           (spec_class_mean ?X lbls (remove_dups lbls ! c) a - spec_total_mean ?X a)
           * (spec_class_mean ?X lbls (remove_dups lbls ! c) b - spec_total_mean ?X b))"
    by (simp add: sc cong: mk_mat_cong sum.cong_simp)
qed

lemma scatter_of_unfold:
  "scatter_of src labels s mem =
     scatter (length (mats mem))
       (map_labels (remove_dups (vecs mem ! labels)) (vecs mem ! labels))
       (length (remove_dups (vecs mem ! labels)))
       (mem\<lparr>mats := mats mem @
          [if dataAsRow s then mats mem ! src else transpose_mat (mats mem ! src)]\<rparr>)"
  by (simp add: scatter_of_def prepare_unfold)

lemma rows_canonical:
  "rows (if dataAsRow s then m else transpose_mat m) = (if dataAsRow s then rows m else cols m)"
  by (simp add: transpose_mat_def)

lemma mulTransposed_at:
  "mulTransposed m True = mk_mat (cols m) (cols m) (\<lambda>a b. \<Sum>i<rows m. mat_at m i a * mat_at m i b)"
  by (simp add: mulTransposed_def mat_mul_def transpose_mat_def sum_list_upt
      cong: mk_mat_cong sum.cong_simp)

lemma scatter_of_within_classes:
  fixes s :: LinearDiscriminantAnalysis and mem :: memory and src labels :: nat
  defines "X \<equiv> (if dataAsRow s then mats mem ! src else transpose_mat (mats mem ! src))"
    and "lbls \<equiv> vecs mem ! labels"
    and "centered \<equiv> mats (snd (snd (scatter_of src labels s mem))) ! length (mats mem)"
    and "Sw \<equiv> fst (scatter_of src labels s mem)"
  assumes len: "length (vecs mem ! labels) =
      (if dataAsRow s then rows (mats mem ! src) else cols (mats mem ! src))"
  shows "rows centered = rows X \<and> cols centered = cols X
    \<and> (\<forall>i<rows X. \<forall>j<cols X.
          mat_at centered i j = mat_at X i j - spec_class_mean X lbls (lbls ! i) j)
    \<and> Sw = mat_mul (transpose_mat centered) centered
    \<and> rows Sw = cols X \<and> cols Sw = cols X
    \<and> (\<forall>a<cols X. \<forall>b<cols X.
          mat_at Sw a b = (\<Sum>i<rows X. mat_at centered i a * mat_at centered i b))"
proof -
  let ?mem2 = "mem\<lparr>mats := mats mem @ [X]\<rparr>"
  let ?d = "length (mats mem)"
  have d: "?d < length (mats ?mem2)" by simp
  have X: "mats ?mem2 ! ?d = X" by simp
  have l: "length lbls = rows (mats ?mem2 ! ?d)"
    using len by (simp add: lbls_def X_def rows_canonical)
  have so: "scatter_of src labels s mem =
      scatter ?d (map_labels (remove_dups lbls) lbls) (length (remove_dups lbls)) ?mem2"
    by (simp add: scatter_of_unfold X_def lbls_def)
  note sc = scatter_closed [OF d l, unfolded X, folded so, folded centered_def Sw_def]
  have Sw: "Sw = mk_mat (cols X) (cols X)
      (\<lambda>a b. \<Sum>i<rows X. mat_at centered i a * mat_at centered i b)"
    using sc(4) by (simp add: mulTransposed_at sc(1,2))
  have "Sw = mat_mul (transpose_mat centered) centered"
    using sc(4) by (simp add: mulTransposed_def)
  moreover have "rows Sw = cols X" "cols Sw = cols X"
    "\<forall>a<cols X. \<forall>b<cols X.
          mat_at Sw a b = (\<Sum>i<rows X. mat_at centered i a * mat_at centered i b)"
    by (simp_all add: Sw)
  ultimately show ?thesis
    using sc(1,2,3) by simp
qed

lemma sum_nth_distinct:
  assumes "distinct xs"
  shows "(\<Sum>c<length xs. g (xs ! c)) = sum g (set xs)"
proof -
  have "sum g (set xs) = sum_list (map g xs)"
    using assms by (simp add: sum_list_distinct_conv_sum_set)
  also have "\<dots> = (\<Sum>c = 0..<length (map g xs). map g xs ! c)"
    by (rule sum_list_sum_nth)
  also have "\<dots> = (\<Sum>c<length xs. g (xs ! c))"
    by (simp add: atLeast0LessThan)
  finally show ?thesis by simp
qed

lemma scatter_of_Sb:
  fixes s :: LinearDiscriminantAnalysis and mem :: memory and src labels :: nat
  defines "X \<equiv> (if dataAsRow s then mats mem ! src else transpose_mat (mats mem ! src))"
    and "lbls \<equiv> vecs mem ! labels"
  assumes len: "length (vecs mem ! labels) =
      (if dataAsRow s then rows (mats mem ! src) else cols (mats mem ! src))"
  shows "fst (snd (scatter_of src labels s mem)) =
     mk_mat (cols X) (cols X)
       (\<lambda>a b. \<Sum>l\<in>set lbls. (spec_class_mean X lbls l a - spec_total_mean X a)
                            * (spec_class_mean X lbls l b - spec_total_mean X b))"
proof -
  let ?mem2 = "mem\<lparr>mats := mats mem @ [X]\<rparr>"
  let ?d = "length (mats mem)"
  have d: "?d < length (mats ?mem2)" by simp
  have X: "mats ?mem2 ! ?d = X" by simp
  have l: "length lbls = rows (mats ?mem2 ! ?d)"
    using len by (simp add: lbls_def X_def rows_canonical)
  have so: "scatter_of src labels s mem =
      scatter ?d (map_labels (remove_dups lbls) lbls) (length (remove_dups lbls)) ?mem2"
    by (simp add: scatter_of_unfold X_def lbls_def)
  note sc = scatter_closed(5) [OF d l, unfolded X, folded so]
  have "(\<Sum>c<length (remove_dups lbls).
           (spec_class_mean X lbls (remove_dups lbls ! c) a - spec_total_mean X a)
           * (spec_class_mean X lbls (remove_dups lbls ! c) b - spec_total_mean X b)) =
        (\<Sum>l\<in>set lbls. (spec_class_mean X lbls l a - spec_total_mean X a)
                            * (spec_class_mean X lbls l b - spec_total_mean X b))" for a b
    using sum_nth_distinct [OF remove_dups_distinct, of
        "\<lambda>l. (spec_class_mean X lbls l a - spec_total_mean X a)
                            * (spec_class_mean X lbls l b - spec_total_mean X b)" lbls]
    by (simp add: remove_dups_set)
  then show ?thesis
    by (simp add: sc)
qed

lemma ex_stages_two_classes:
  "channels (mats ex_store ! 0) = 1"
  "prepare 0 0 ex_fresh ex_store =
      (1, ex_store\<lparr>mats := [ex_data, ex_data]\<rparr>, [0, 0, 1, 1], [7, 3])"
  "length (vecs (ex_store\<lparr>mats := [ex_data, ex_data]\<rparr>) ! 0) =
      rows (mats (ex_store\<lparr>mats := [ex_data, ex_data]\<rparr>) ! 1)"
  "scatter 1 [0, 0, 1, 1] (length [7, 3 :: int]) (ex_store\<lparr>mats := [ex_data, ex_data]\<rparr>) =
      (\<lparr>rows = 2, cols = 2, channels = 1, elems = [[2, 0], [0, 2]]\<rparr>,
       \<lparr>rows = 2, cols = 2, channels = 1, elems = [[0, 0], [0, 50]]\<rparr>,
       ex_store\<lparr>mats := [ex_data, ex_centered]\<rparr>)"
  "eigen_matrix \<lparr>rows = 2, cols = 2, channels = 1, elems = [[2, 0], [0, 2]]\<rparr>
       \<lparr>rows = 2, cols = 2, channels = 1, elems = [[0, 0], [0, 50]]\<rparr> =
      Inr \<lparr>rows = 2, cols = 2, channels = 1, elems = [[0, 0], [0, 25]]\<rparr>"
  "select_components
       (es_diag \<lparr>rows = 2, cols = 2, channels = 1, elems = [[0, 0], [0, 25]]\<rparr>)
       (if num_components ex_fresh \<le> 0 \<or> num_components ex_fresh > int (length [7, 3 :: int]) - 1
        then ex_fresh\<lparr>num_components := int (length [7, 3 :: int]) - 1\<rparr> else ex_fresh) =
      (Inr (), ex_model)"
  by code_simp+



text \<open>
  Claim C4.  Under the same conditions the between-classes scatter that \<^verbatim>\<open>compute\<close>
  multiplies with the inverse of \<open>Sw\<close> is the \<open>D \<times> D\<close> matrix \<open>Sb\<close> whose entry \<open>(a, b)\<close> is
  the sum, over the distinct labels, of the product of the differences between the class
  mean and the global mean in columns \<open>a\<close> and \<open>b\<close>: one outer product per class, with no
  weight for the size of the class and no normalisation.  The outcome of the call and
  the object after it are those of the eigenproblem for \<open>inv(Sw) \<cdot> Sb\<close> with this \<open>Sb\<close>.
\<close>

theorem compute_between_classes_scatter:
  fixes s :: LinearDiscriminantAnalysis and mem :: memory and src labels :: nat
    and es :: "Mat \<Rightarrow> Mat \<times> Mat"
  defines "X \<equiv> (if dataAsRow s then mats mem ! src else transpose_mat (mats mem ! src))"
    and "lbls \<equiv> vecs mem ! labels"
    and "centered \<equiv> mats (snd (snd (compute es src labels s mem))) ! length (mats mem)"
  defines "Sw \<equiv> mat_mul (transpose_mat centered) centered"
    and "Sb \<equiv> mk_mat (cols X) (cols X)
       (\<lambda>a b. \<Sum>l\<in>set lbls. (spec_class_mean X lbls l a - spec_total_mean X a)
                            * (spec_class_mean X lbls l b - spec_total_mean X b))"
    and "s1 \<equiv> (if num_components s \<le> 0
               \<or> num_components s > int (length (remove_dups (vecs mem ! labels))) - 1
            then s\<lparr>num_components := int (length (remove_dups (vecs mem ! labels))) - 1\<rparr>
            else s)"
  assumes ch: "channels (mats mem ! src) = 1"
    and len: "length (vecs mem ! labels) =
      (if dataAsRow s then rows (mats mem ! src) else cols (mats mem ! src))"
  shows "rows Sb = cols X \<and> cols Sb = cols X
       \<and> fst (compute es src labels s mem) =
           (case eigen_matrix Sw Sb of
              Inl e \<Rightarrow> Inl e
            | Inr M \<Rightarrow> fst (select_components (es M) s1))
       \<and> fst (snd (compute es src labels s mem)) =
           (case eigen_matrix Sw Sb of
              Inl e \<Rightarrow> s1
            | Inr M \<Rightarrow> snd (select_components (es M) s1))"
proof -
  let ?sc = "scatter_of src labels s mem"
  have cu: "compute es src labels s mem =
      (case eigen_matrix (fst ?sc) (fst (snd ?sc)) of
         Inl e \<Rightarrow> (Inl e, s1, snd (snd ?sc))
       | Inr M \<Rightarrow>
           (fst (select_components (es M) s1), snd (select_components (es M) s1),
            snd (snd ?sc)))"
    using ch len unfolding s1_def
    by (cases "dataAsRow s")
       (simp_all add: compute_def scatter_of_def prepare_unfold transpose_mat_def Let_def
        split: prod.splits sum.splits)
  have st: "snd (snd (compute es src labels s mem)) = snd (snd ?sc)"
    by (simp add: cu split: sum.splits)
  note w = scatter_of_within_classes [OF len, folded st, folded X_def lbls_def centered_def,
      folded Sw_def]
  from w have Sw: "fst ?sc = Sw" by simp
  have Sb: "fst (snd ?sc) = Sb"
    unfolding Sb_def X_def lbls_def by (rule scatter_of_Sb [OF len])
  have "rows Sb = cols X" "cols Sb = cols X"
    by (simp_all add: Sb_def)
  moreover have "fst (compute es src labels s mem) =
           (case eigen_matrix Sw Sb of
              Inl e \<Rightarrow> Inl e
            | Inr M \<Rightarrow> fst (select_components (es M) s1))"
    "fst (snd (compute es src labels s mem)) =
           (case eigen_matrix Sw Sb of
              Inl e \<Rightarrow> s1
            | Inr M \<Rightarrow> snd (select_components (es M) s1))"
    by (simp_all add: cu Sw Sb split: sum.splits)
  ultimately show ?thesis by blast
qed

theorem compute_between_classes_scatter_witness:
  "channels (mats ex_store ! 0) = 1
   \<and> length (vecs ex_store ! 0) =
      (if dataAsRow ex_fresh then rows (mats ex_store ! 0) else cols (mats ex_store ! 0))
   \<and> mk_mat (cols ex_data) (cols ex_data)
       (\<lambda>a b. \<Sum>l\<in>set [7, 7, 3, 3].
          (spec_class_mean ex_data [7, 7, 3, 3] l a - spec_total_mean ex_data a)
          * (spec_class_mean ex_data [7, 7, 3, 3] l b - spec_total_mean ex_data b)) =
       \<lparr>rows = 2, cols = 2, channels = 1, elems = [[0, 0], [0, 50]]\<rparr>
   \<and> fst (compute es_diag 0 0 ex_fresh ex_store) =
       (case eigen_matrix (mat_mul (transpose_mat ex_centered) ex_centered)
               \<lparr>rows = 2, cols = 2, channels = 1, elems = [[0, 0], [0, 50]]\<rparr> of
          Inl e \<Rightarrow> Inl e
        | Inr M \<Rightarrow> fst (select_components (es_diag M) (ex_fresh\<lparr>num_components := 1\<rparr>)))
   \<and> fst (compute es_diag 0 0 ex_fresh ex_store) = Inr ()"
proof -
  have run: "compute es_diag 0 0 ex_fresh ex_store =
     (Inr (), ex_model, ex_store\<lparr>mats := [ex_data, ex_centered]\<rparr>)"
    by (simp only: compute_def ex_stages_two_classes Let_def prod.case sum.case simp_thms
        if_False if_True)
  have "length (mats ex_store) = 1"
    by (simp add: ex_store_def)
  then have cell:
    "mats (snd (snd (compute es_diag 0 0 ex_fresh ex_store))) ! length (mats ex_store) =
       ex_centered"
    unfolding run by simp
  have ch: "channels (mats ex_store ! 0) = 1"
    by (simp add: ex_store_def ex_data_def)
  have len: "length (vecs ex_store ! 0) =
      (if dataAsRow ex_fresh then rows (mats ex_store ! 0) else cols (mats ex_store ! 0))"
    by (simp add: ex_store_def ex_fresh_def ex_data_def)
  have e: "dataAsRow ex_fresh" "mats ex_store ! 0 = ex_data" "vecs ex_store ! 0 = [7, 7, 3, 3]"
    by (simp_all add: ex_fresh_def ex_store_def)
  have s1: "(if num_components ex_fresh \<le> 0
               \<or> num_components ex_fresh > int (length (remove_dups [7, 7, 3, 3])) - 1
            then ex_fresh\<lparr>num_components := int (length (remove_dups [7, 7, 3, 3])) - 1\<rparr>
            else ex_fresh) = ex_fresh\<lparr>num_components := 1\<rparr>"
    by (simp add: ex_fresh_def)
  have Sb: "mk_mat (cols ex_data) (cols ex_data)
       (\<lambda>a b. \<Sum>l\<in>set [7, 7, 3, 3].
          (spec_class_mean ex_data [7, 7, 3, 3] l a - spec_total_mean ex_data a)
          * (spec_class_mean ex_data [7, 7, 3, 3] l b - spec_total_mean ex_data b)) =
       \<lparr>rows = 2, cols = 2, channels = 1, elems = [[0, 0], [0, 50]]\<rparr>"
    by code_simp
  note t = compute_between_classes_scatter [OF ch len, of es_diag,
      unfolded cell e if_P [OF e(1)] s1 Sb]
  have "fst (compute es_diag 0 0 ex_fresh ex_store) = Inr ()"
    by (simp add: run)
  with t [THEN conjunct2, THEN conjunct2, THEN conjunct1] ch len Sb show ?thesis
    by blast
qed

subsection \<open>\<^verbatim>\<open>subspace::project\<close> followed by \<^verbatim>\<open>subspace::reconstruct\<close>\<close>

lemma gemm_plain:
  "cols A = rows B \<Longrightarrow>
   gemm A B 1 empty_Mat 0 GEMM_0 =
     Inr (mk_mat (rows A) (cols B) (\<lambda>i j. \<Sum>k<cols A. mat_at A i k * mat_at B k j))"
  by (simp add: gemm_def is_empty_def empty_Mat_def mat_mul_def sum_list_upt Let_def)

lemma mk_mat_no_entries: "r = 0 \<or> c = 0 \<Longrightarrow> mk_mat r c f = mk_mat r c g"
  by (auto simp: mk_mat_def)

lemma gemm_2T_add:
  assumes "cols A = cols B" and "rows C = rows A" and "cols C = rows B"
  shows "gemm A B 1 C 1 GEMM_2_T =
     Inr (mk_mat (rows A) (rows B)
           (\<lambda>i j. (\<Sum>k<cols A. mat_at A i k * mat_at B j k) + mat_at C i j))"
proof (cases "is_empty C")
  case True
  with assms have "rows A = 0 \<or> rows B = 0"
    by (auto simp: is_empty_def)
  then have "mk_mat (rows A) (rows B) f = mk_mat (rows A) (rows B) g" for f g
    by (rule mk_mat_no_entries)
  with True assms show ?thesis
    by (simp add: gemm_def transpose_mat_def Let_def)
next
  case False
  with assms show ?thesis
    by (simp add: gemm_def mat_mul_def transpose_mat_def sum_list_upt Let_def
        cong: sum.cong_simp)
qed

lemma orthogonal_entries:
  assumes "orthogonal W" and "l < rows W" and "j < rows W"
  shows "(\<Sum>k<rows W. mat_at W l k * mat_at W j k) = (if l = j then 1 else 0)"
proof -
  from assms(1) have sq: "cols W = rows W" and e: "mat_mul W (transpose_mat W) = eye (rows W)"
    by (simp_all add: orthogonal_def)
  have "mat_at (mat_mul W (transpose_mat W)) l j = mat_at (eye (rows W)) l j"
    by (simp only: e)
  with assms(2,3) sq show ?thesis
    by (simp add: mat_mul_def transpose_mat_def eye_def sum_list_upt cong: sum.cong_simp)
qed

lemma roundtrip_sum:
  assumes "orthogonal W" and "j < rows W"
  shows "(\<Sum>k<rows W. (\<Sum>l<rows W. a l * mat_at W l k) * mat_at W j k) = a j"
proof -
  have "(\<Sum>k<rows W. (\<Sum>l<rows W. a l * mat_at W l k) * mat_at W j k) =
      (\<Sum>k<rows W. \<Sum>l<rows W. a l * (mat_at W l k * mat_at W j k))"
    by (simp add: sum_distrib_right mult.assoc)
  also have "\<dots> = (\<Sum>l<rows W. \<Sum>k<rows W. a l * (mat_at W l k * mat_at W j k))"
    by (rule sum.swap)
  also have "\<dots> = (\<Sum>l<rows W. a l * (\<Sum>k<rows W. mat_at W l k * mat_at W j k))"
    by (simp add: sum_distrib_left)
  also have "\<dots> = (\<Sum>l<rows W. a l * (if l = j then 1 else 0))"
    using assms by (simp add: orthogonal_entries cong: sum.cong_simp)
  also have "\<dots> = (\<Sum>l<rows W. if j = l then a l else 0)"
    by (rule sum.cong) auto
  also have "\<dots> = a j"
    using assms(2) by (simp add: sum.delta)
  finally show ?thesis .
qed

lemma rows_repeat [simp]: "rows (repeat m ny nx) = rows m * ny"
  by (simp add: repeat_def)

lemma cols_repeat [simp]: "cols (repeat m ny nx) = cols m * nx"
  by (simp add: repeat_def)

lemma roundtrip_core:
  assumes W: "orthogonal W" and A: "cols A = rows W" and m: "total_mat mean = rows W"
    and Y': "rows Y' = rows A" "cols Y' = rows W"
      "\<And>i j. i < rows A \<Longrightarrow> j < rows W \<Longrightarrow>
         mat_at Y' i j =
           (\<Sum>k<rows W. (mat_at A i k - mat_at (repeat (reshape_1_1 mean) (rows A) 1) i k)
                           * mat_at W k j)"
  shows "gemm Y' W 1 (repeat (reshape_1_1 mean) (rows A) 1) 1 GEMM_2_T =
           Inr (mk_mat (rows A) (rows W) (mat_at A))"
proof -
  let ?R = "repeat (reshape_1_1 mean) (rows A) 1"
  from W have sq: "cols W = rows W" by (simp add: orthogonal_def)
  have "gemm Y' W 1 ?R 1 GEMM_2_T =
     Inr (mk_mat (rows Y') (rows W)
           (\<lambda>i j. (\<Sum>k<cols Y'. mat_at Y' i k * mat_at W j k) + mat_at ?R i j))"
    by (rule gemm_2T_add) (simp_all add: Y' sq m)
  also have "mk_mat (rows Y') (rows W)
           (\<lambda>i j. (\<Sum>k<cols Y'. mat_at Y' i k * mat_at W j k) + mat_at ?R i j) =
      mk_mat (rows A) (rows W) (mat_at A)"
  proof (rule mk_mat_cong)
    fix i j assume i: "i < rows A" and j: "j < rows W"
    have "(\<Sum>k<cols Y'. mat_at Y' i k * mat_at W j k) =
        (\<Sum>k<rows W. (\<Sum>l<rows W. (mat_at A i l - mat_at ?R i l) * mat_at W l k) * mat_at W j k)"
      using i by (simp add: Y' cong: sum.cong_simp)
    also have "\<dots> = mat_at A i j - mat_at ?R i j"
      by (rule roundtrip_sum [OF W j])
    finally show "(\<Sum>k<cols Y'. mat_at Y' i k * mat_at W j k) + mat_at ?R i j = mat_at A i j"
      by simp
  qed (simp_all add: Y')
  finally show ?thesis .
qed

lemma rows_transpose [simp]: "rows (transpose_mat m) = cols m"
  by (simp add: transpose_mat_def)

lemma cols_transpose [simp]: "cols (transpose_mat m) = rows m"
  by (simp add: transpose_mat_def)

lemma roundtrip_canonical:
  assumes W: "orthogonal W" and cA: "cols A = rows W" and m: "total_mat mean = rows W"
  defines "Y \<equiv> mk_mat (rows A) (cols W)
      (\<lambda>i j. \<Sum>k<rows W.
         (mat_at A i k - mat_at (repeat (reshape_1_1 mean) (rows A) 1) i k) * mat_at W k j)"
  shows "gemm (subtract A (repeat (reshape_1_1 mean) (rows A) 1)) W 1 empty_Mat 0 GEMM_0 = Inr Y"
    and "gemm Y W 1 (repeat (reshape_1_1 mean) (rows A) 1) 1 GEMM_2_T =
           Inr (mk_mat (rows A) (rows W) (mat_at A))"
    and "gemm (transpose_mat (transpose_mat Y)) W 1 (repeat (reshape_1_1 mean) (rows A) 1) 1
           GEMM_2_T = Inr (mk_mat (rows A) (rows W) (mat_at A))"
proof -
  from W have sq: "cols W = rows W" by (simp add: orthogonal_def)
  show "gemm (subtract A (repeat (reshape_1_1 mean) (rows A) 1)) W 1 empty_Mat 0 GEMM_0 = Inr Y"
    using gemm_plain [of "subtract A (repeat (reshape_1_1 mean) (rows A) 1)" W] cA
    by (simp add: subtract_def Y_def m cong: sum.cong_simp)
  show "gemm Y W 1 (repeat (reshape_1_1 mean) (rows A) 1) 1 GEMM_2_T =
           Inr (mk_mat (rows A) (rows W) (mat_at A))"
    by (rule roundtrip_core [OF W cA m]) (simp_all add: Y_def sq)
  show "gemm (transpose_mat (transpose_mat Y)) W 1 (repeat (reshape_1_1 mean) (rows A) 1) 1
           GEMM_2_T = Inr (mk_mat (rows A) (rows W) (mat_at A))"
    by (rule roundtrip_core [OF W cA m]) (simp_all add: Y_def sq transpose_mat_def)
qed

text \<open>
  Claim C8, as the code has it.  \<^verbatim>\<open>reconstruct\<close> multiplies by the transpose of \<open>W\<close>, not
  by its inverse, so the round trip returns \<open>X\<close> when \<open>W\<close> is orthogonal: for a well-formed
  sample matrix \<open>X\<close>, a mean with as many elements as \<open>X\<close> has features and an orthogonal
  \<open>D \<times> D\<close> basis \<open>W\<close>, \<^verbatim>\<open>project\<close> succeeds and \<^verbatim>\<open>reconstruct\<close> of its result is \<open>X\<close>, with
  either orientation of the data and in exact arithmetic.  For a basis that has full rank
  only, the round trip can miss \<open>X\<close>: with \<open>W = (2)\<close>, mean \<open>0\<close> and \<open>X = (1)\<close> it yields \<open>(4)\<close>.
\<close>

theorem project_reconstruct_orthogonal:
  assumes W: "orthogonal W" and X: "wf_mat X"
    and d: "(if asRow then cols X else rows X) = rows W"
    and m: "total_mat mean = rows W"
  shows "\<exists>Y. project W mean X asRow = Inr Y \<and> reconstruct W mean Y asRow = Inr X"
proof (cases asRow)
  case True
  with d have cA: "cols X = rows W" by simp
  from W have sq: "cols W = rows W" by (simp add: orthogonal_def)
  note rt = roundtrip_canonical [OF W cA m]
  have "mk_mat (rows X) (rows W) (mat_at X) = X"
    using mk_mat_mat_at [OF X] cA by simp
  with rt(1,2) True cA m sq show ?thesis
    by (simp add: project_def reconstruct_def convertTo_def Let_def)
next
  case False
  with d have cA: "cols (transpose_mat X) = rows W" by simp
  from W have sq: "cols W = rows W" by (simp add: orthogonal_def)
  note rt = roundtrip_canonical [OF W cA m]
  have "transpose_mat (mk_mat (rows (transpose_mat X)) (rows W) (mat_at (transpose_mat X))) = X"
    using X cA by (intro mat_eqI) (auto simp: transpose_mat_def)
  with rt(1,3) False cA m sq show ?thesis
    by (simp add: project_def reconstruct_def convertTo_def Let_def)
qed

theorem project_reconstruct_orthogonal_witness:
  "orthogonal ex_W \<and> wf_mat ex_X \<and> (if True then cols ex_X else rows ex_X) = rows ex_W
   \<and> total_mat ex_mean = rows ex_W
   \<and> (\<exists>Y. project ex_W ex_mean ex_X True = Inr Y \<and> reconstruct ex_W ex_mean Y True = Inr ex_X)"
proof -
  have W: "orthogonal ex_W" by code_simp
  have X: "wf_mat ex_X" by code_simp
  have d: "(if True then cols ex_X else rows ex_X) = rows ex_W" by code_simp
  have m: "total_mat ex_mean = rows ex_W" by code_simp
  from project_reconstruct_orthogonal [OF W X d m] W X d m show ?thesis
    by blast
qed

theorem project_reconstruct_full_rank_counterexample:
  "wf_mat ex_W1 \<and> rows ex_W1 = cols ex_X1 \<and> cols ex_W1 = cols ex_X1
   \<and> det (elems ex_W1) \<noteq> 0 \<and> wf_mat ex_X1 \<and> total_mat ex_mean1 = cols ex_X1
   \<and> project ex_W1 ex_mean1 ex_X1 True =
        Inr \<lparr>rows = 1, cols = 1, channels = 1, elems = [[2]]\<rparr>
   \<and> reconstruct ex_W1 ex_mean1 \<lparr>rows = 1, cols = 1, channels = 1, elems = [[2]]\<rparr> True =
        Inr \<lparr>rows = 1, cols = 1, channels = 1, elems = [[4]]\<rparr>
   \<and> mat_at \<lparr>rows = 1, cols = 1, channels = 1, elems = [[4]]\<rparr> 0 0 - mat_at ex_X1 0 0 = 3"
  by code_simp

end
